(* ===== verification/Prelude.thy ===== *)
theory Prelude
  imports Complex_Main
begin

text \<open>
  Shared vocabulary of the RSI backtesting model: the types that name the
  columns of the pandas DataFrame the program threads through its stages,
  NumPy float division with its infinities and NaN, the pandas operations the
  code uses on whole columns (\<open>shift(1)\<close>, \<open>rolling(window, min_periods=1).mean()\<close>,
  \<open>expanding().max()\<close>, \<open>std()\<close>), and the generic lemmas on lists of reals
  that the component theories share.
\<close>

named_theorems column_simps "length and shape facts about DataFrame columns"
named_theorems bt_field_simps "field updates of the simulator's loop helpers"

type_synonym close_series = "real list"
type_synonym indicator_series = "real list"

subsection \<open>NumPy float division\<close>

text \<open>
  A DataFrame column of float64 divides by zero without raising:
  \<open>x / 0.0\<close> is \<open>inf\<close> or \<open>-inf\<close> for \<open>x \<noteq> 0\<close> and \<open>NaN\<close> for \<open>0 / 0\<close>.
\<close>

datatype fval = Fin real | PInf | NInf | NaN

definition fdiv :: "real \<Rightarrow> real \<Rightarrow> fval" where
  "fdiv a b =
     (if b \<noteq> 0 then Fin (a / b)
      else if 0 < a then PInf
      else if a < 0 then NInf
      else NaN)"

lemma fdiv_nonzero [simp]: "b \<noteq> 0 \<Longrightarrow> fdiv a b = Fin (a / b)"
  by (simp add: fdiv_def)

lemma fdiv_zero [simp]:
  "fdiv a 0 = (if 0 < a then PInf else if a < 0 then NInf else NaN)"
  by (simp add: fdiv_def)

subsection \<open>pandas column operations\<close>

text \<open>\<open>s.shift(1)\<close>: the previous row's value, NaN (here \<open>None\<close>) in the first row.\<close>

definition shift1 :: "'a list \<Rightarrow> 'a option list" where
  "shift1 xs = (case xs of [] \<Rightarrow> [] | _ \<Rightarrow> None # map Some (butlast xs))"

lemma length_shift1 [simp, column_simps]: "length (shift1 xs) = length xs"
  by (cases xs) (simp_all add: shift1_def)

lemma shift1_nonempty: "xs \<noteq> [] \<Longrightarrow> shift1 xs = None # map Some (butlast xs)"
  by (simp add: shift1_def split: list.split)

lemma shift1_nth:
  "i < length xs \<Longrightarrow> shift1 xs ! i = (if i = 0 then None else Some (xs ! (i - 1)))"
proof -
  assume i: "i < length xs"
  then have "xs \<noteq> []" by auto
  then have eq: "shift1 xs = None # map Some (butlast xs)" by (rule shift1_nonempty)
  show ?thesis
  proof (cases i)
    case 0
    then show ?thesis by (simp add: eq)
  next
    case (Suc j)
    with i have "j < length (butlast xs)" by simp
    with Suc show ?thesis by (simp add: eq nth_butlast)
  qed
qed

text \<open>\<open>mean\<close> of a non-empty window: the sum over the count.\<close>

definition mean :: "real list \<Rightarrow> real" where
  "mean xs = sum_list xs / real (length xs)"

text \<open>
  The trailing window of \<open>rolling(window=p, min_periods=1)\<close> at row \<open>i\<close>: the
  rows \<open>i - p + 1 .. i\<close>, cut at row 0 (an expanding window for the first
  \<open>p - 1\<close> rows).
\<close>

definition trailing_window :: "nat \<Rightarrow> nat \<Rightarrow> 'a list \<Rightarrow> 'a list" where
  "trailing_window p i xs = drop (Suc i - p) (take (Suc i) xs)"

definition rolling_mean :: "nat \<Rightarrow> real list \<Rightarrow> real list" where
  "rolling_mean p xs = map (\<lambda>i. mean (trailing_window p i xs)) [0..<length xs]"

lemma length_rolling_mean [simp, column_simps]: "length (rolling_mean p xs) = length xs"
  by (simp add: rolling_mean_def)

lemma rolling_mean_nth:
  "i < length xs \<Longrightarrow> rolling_mean p xs ! i = mean (trailing_window p i xs)"
  by (simp add: rolling_mean_def)

lemma trailing_window_nonempty:
  "0 < p \<Longrightarrow> i < length xs \<Longrightarrow> trailing_window p i xs \<noteq> []"
  by (simp add: trailing_window_def)

lemma set_trailing_window: "set (trailing_window p i xs) \<subseteq> set xs"
  unfolding trailing_window_def by (meson set_drop_subset set_take_subset subset_trans)

subsection \<open>Means of non-negative and constant data\<close>

lemma sum_list_nonneg_real: "\<forall>x\<in>set xs. 0 \<le> (x::real) \<Longrightarrow> 0 \<le> sum_list xs"
  by (rule sum_list_nonneg) simp
lemma mean_nonneg: "\<forall>x\<in>set xs. 0 \<le> x \<Longrightarrow> 0 \<le> mean xs"
  unfolding mean_def by (intro divide_nonneg_nonneg sum_list_nonneg_real) simp_all

lemma sum_list_eq_0_nonneg_real:
  "\<forall>x\<in>set xs. 0 \<le> (x::real) \<Longrightarrow> sum_list xs = 0 \<longleftrightarrow> (\<forall>x\<in>set xs. x = 0)"
proof (induction xs)
  case Nil
  then show ?case by simp
next
  case (Cons a xs)
  then have a: "0 \<le> a" and s: "0 \<le> sum_list xs" and nn: "\<forall>x\<in>set xs. 0 \<le> x"
    by (simp_all add: sum_list_nonneg_real)
  have "sum_list (a # xs) = 0 \<longleftrightarrow> a = 0 \<and> sum_list xs = 0"
    using add_nonneg_eq_0_iff [OF a s] by simp
  also have "\<dots> \<longleftrightarrow> a = 0 \<and> (\<forall>x\<in>set xs. x = 0)"
    using Cons.IH [OF nn] by simp
  finally show ?case by simp
qed

lemma rolling_mean_nonneg:
  "\<forall>x\<in>set xs. 0 \<le> x \<Longrightarrow> \<forall>m\<in>set (rolling_mean p xs). 0 \<le> m"
proof
  fix m assume nn: "\<forall>x\<in>set xs. 0 \<le> x" and mem: "m \<in> set (rolling_mean p xs)"
  from mem obtain i where m: "m = mean (trailing_window p i xs)"
    unfolding rolling_mean_def set_map by blast
  have "\<forall>x\<in>set (trailing_window p i xs). 0 \<le> x"
    using nn set_trailing_window [of p i xs] by blast
  then show "0 \<le> m" unfolding m by (rule mean_nonneg)
qed

lemma mean_zeros: "\<forall>x\<in>set xs. x = 0 \<Longrightarrow> mean xs = 0"
proof -
  assume z: "\<forall>x\<in>set xs. x = 0"
  have nn: "\<forall>x\<in>set xs. 0 \<le> (x::real)"
  proof
    fix x assume "x \<in> set xs"
    with z show "0 \<le> x" by auto
  qed
  from z have "sum_list xs = 0" using sum_list_eq_0_nonneg_real [OF nn] by blast
  then show ?thesis unfolding mean_def by simp
qed

lemma rolling_mean_zeros:
  "\<forall>x\<in>set xs. x = 0 \<Longrightarrow> rolling_mean p xs = replicate (length xs) 0"
proof -
  assume z: "\<forall>x\<in>set xs. x = 0"
  have "mean (trailing_window p i xs) = 0" for i
  proof (rule mean_zeros)
    show "\<forall>x\<in>set (trailing_window p i xs). x = 0"
      using z set_trailing_window [of p i xs] by blast
  qed
  then show ?thesis unfolding rolling_mean_def by (simp add: map_replicate_const)
qed

lemma mean_pos:
  assumes "\<forall>x\<in>set xs. 0 \<le> x" and "y \<in> set xs" and "0 < y"
  shows "0 < mean xs"
proof -
  from assms have "y \<le> sum_list xs" by (intro member_le_sum_list) auto
  with assms(3) have "0 < sum_list xs" by linarith
  moreover from assms(2) have "0 < real (length xs)" by (cases xs) auto
  ultimately show ?thesis unfolding mean_def by (rule divide_pos_pos)
qed

lemma nth_in_trailing_window:
  assumes "0 < p" and "i < length xs"
  shows "xs ! i \<in> set (trailing_window p i xs)"
proof -
  have t: "take (Suc i) xs = take i xs @ [xs ! i]"
    using assms(2) by (rule take_Suc_conv_app_nth)
  have "Suc i - p \<le> length (take i xs)" using assms by simp
  then have "drop (Suc i - p) (take (Suc i) xs) = drop (Suc i - p) (take i xs) @ [xs ! i]"
    unfolding t using assms by (simp add: drop_append)
  then show ?thesis unfolding trailing_window_def by simp
qed

end
