(* ===== verification/Indicator.thy ===== *)
theory Indicator
  imports Prelude
begin

text \<open>
  The Indicator Engine: \<open>calculate_rsi\<close> of \<open>src/subcode/calculation.py\<close>.
  The close column is a list of reals; \<open>Close.diff()\<close> is a list of
  \<open>real option\<close> (NaN in the first row); gains and losses are split as the
  \<open>where\<close>/\<open>fillna\<close> calls do; the averages are trailing rolling means with
  \<open>min_periods=1\<close>; the ratio \<open>avg_gain / avg_loss\<close> is NumPy division
  (\<open>fdiv\<close>), and \<open>fillna(50)\<close> replaces only the NaN of \<open>0 / 0\<close>.
\<close>

definition diff :: "close_series \<Rightarrow> real option list" where
  "diff xs = map2 (\<lambda>prev x. map_option (\<lambda>p. x - p) prev) (shift1 xs) xs"

text \<open>\<open>delta.where(delta > 0, 0).fillna(0)\<close>: NaN fails the test and becomes 0.\<close>

definition gain_of :: "real option \<Rightarrow> real" where
  "gain_of d = (case d of None \<Rightarrow> 0 | Some x \<Rightarrow> if 0 < x then x else 0)"

text \<open>\<open>(-delta.where(delta < 0, 0)).fillna(0)\<close>.\<close>

definition loss_of :: "real option \<Rightarrow> real" where
  "loss_of d = (case d of None \<Rightarrow> 0 | Some x \<Rightarrow> - (if x < 0 then x else 0))"

text \<open>
  One RSI value from the two averages (lines 49--51): \<open>rs = avg_gain / avg_loss\<close>,
  \<open>100 - 100 / (1 + rs)\<close>, then \<open>fillna(50)\<close>. With \<open>rs = inf\<close> the quotient
  \<open>100 / (1 + inf)\<close> is 0 and the value is 100; with \<open>rs = -inf\<close> it is \<open>-0.0\<close>
  and the value is again 100; only \<open>rs = NaN\<close> (that is \<open>0 / 0\<close>) is filled
  with 50. The averages are never negative (\<open>rsi_avg_nonneg\<close>), so \<open>1 + rs\<close>
  is positive in the finite case.
\<close>

definition rsi_value :: "real \<Rightarrow> real \<Rightarrow> real" where
  "rsi_value avg_gain avg_loss =
     (case fdiv avg_gain avg_loss of
        Fin rs \<Rightarrow> 100 - 100 / (1 + rs)
      | PInf \<Rightarrow> 100
      | NInf \<Rightarrow> 100
      | NaN \<Rightarrow> 50)"

definition calculate_rsi :: "nat \<Rightarrow> close_series \<Rightarrow> indicator_series" where
  "calculate_rsi period close =
     (let delta = diff close;
          gain = map gain_of delta;
          loss = map loss_of delta;
          avg_gain = rolling_mean period gain;
          avg_loss = rolling_mean period loss
      in map2 rsi_value avg_gain avg_loss)"

text \<open>The period the application calls it with (\<open>calculate_rsi(data)\<close>).\<close>

definition default_period :: nat where
  "default_period = 14"

text \<open>
  The textbook form of the same value, used as the reference it is checked
  against: \<open>100 * avg_gain / (avg_gain + avg_loss)\<close>, and the neutral 50 when
  both averages are 0.
\<close>

definition rsi_reference :: "real \<Rightarrow> real \<Rightarrow> real" where
  "rsi_reference ag al = (if ag + al = 0 then 50 else 100 * ag / (ag + al))"

subsection \<open>Shape and sign of the intermediate columns\<close>

lemma length_diff [simp, column_simps]: "length (diff xs) = length xs"
  by (simp add: diff_def)

lemma diff_nth:
  "i < length xs \<Longrightarrow> diff xs ! i = (if i = 0 then None else Some (xs ! i - xs ! (i - 1)))"
  by (simp add: diff_def shift1_nth)

lemma gain_of_nonneg [simp]: "0 \<le> gain_of d"
  by (simp add: gain_of_def split: option.splits)

lemma loss_of_nonneg [simp]: "0 \<le> loss_of d"
  by (simp add: loss_of_def split: option.splits)

lemma rsi_avg_nonneg:
  "\<forall>m\<in>set (rolling_mean p (map gain_of ds)). 0 \<le> m"
  "\<forall>m\<in>set (rolling_mean p (map loss_of ds)). 0 \<le> m"
  by (rule rolling_mean_nonneg, simp)+

lemma length_calculate_rsi [simp, column_simps]:
  "length (calculate_rsi p xs) = length xs"
  by (simp add: calculate_rsi_def Let_def)

lemma calculate_rsi_nth:
  "i < length xs \<Longrightarrow> calculate_rsi p xs ! i =
     rsi_value (rolling_mean p (map gain_of (diff xs)) ! i)
               (rolling_mean p (map loss_of (diff xs)) ! i)"
  by (simp add: calculate_rsi_def Let_def)

subsection \<open>The value of one RSI entry\<close>

lemma rsi_value_pos_loss:
  "0 < al \<Longrightarrow> 0 \<le> ag \<Longrightarrow> rsi_value ag al = 100 * ag / (ag + al)"
  by (simp add: rsi_value_def field_simps)

lemma rsi_value_zero_loss:
  "rsi_value ag 0 = (if ag = 0 then 50 else 100)"
  by (simp add: rsi_value_def)

lemma rsi_value_bounds:
  assumes "0 \<le> ag" and "0 \<le> al"
  shows "0 \<le> rsi_value ag al \<and> rsi_value ag al \<le> 100"
proof (cases "al = 0")
  case True
  then show ?thesis by (simp add: rsi_value_zero_loss)
next
  case False
  with assms have al: "0 < al" by simp
  with assms have "100 * ag / (ag + al) \<le> 100"
    by (simp add: divide_le_eq)
  with al assms show ?thesis by (simp add: rsi_value_pos_loss)
qed


lemma rsi_value_reference:
  assumes "0 \<le> ag" and "0 \<le> al"
  shows "rsi_value ag al = rsi_reference ag al"
proof (cases "al = 0")
  case True
  then show ?thesis by (simp add: rsi_value_zero_loss rsi_reference_def)
next
  case False
  with assms have "0 < al" by simp
  with assms show ?thesis by (simp add: rsi_value_pos_loss rsi_reference_def)
qed

lemma loss_of_sorted:
  assumes "sorted xs"
  shows "\<forall>x\<in>set (map loss_of (diff xs)). x = 0"
proof
  fix x assume "x \<in> set (map loss_of (diff xs))"
  then obtain j where j: "j < length xs" and x: "x = loss_of (diff xs ! j)"
    by (auto simp: in_set_conv_nth)
  show "x = 0"
  proof (cases j)
    case 0
    with j x show ?thesis by (simp add: diff_nth loss_of_def)
  next
    case (Suc k)
    with j assms have "xs ! k \<le> xs ! j" by (simp add: sorted_nth_mono)
    with Suc j x show ?thesis by (simp add: diff_nth loss_of_def)
  qed
qed


subsection \<open>Properties of the Indicator Engine\<close>

text \<open>
  C14. Every RSI value the engine produces lies in \<open>[0, 100]\<close>, whatever the
  prices and the period: the averages are never negative and the NumPy
  infinities and the NaN default all land inside the range.
\<close>

theorem rsi_bounds:
  assumes "i < length xs"
  shows "0 \<le> calculate_rsi p xs ! i \<and> calculate_rsi p xs ! i \<le> 100"
proof -
  let ?g = "rolling_mean p (map gain_of (diff xs))" and ?l = "rolling_mean p (map loss_of (diff xs))"
  have "?g ! i \<in> set ?g" and "?l ! i \<in> set ?l" using assms by simp_all
  then have "0 \<le> ?g ! i" and "0 \<le> ?l ! i" using rsi_avg_nonneg by blast+
  then show ?thesis using assms by (simp add: calculate_rsi_nth rsi_value_bounds)
qed

theorem rsi_bounds_witness:
  "0 \<le> calculate_rsi 14 [10, 12, 11] ! 2 \<and> calculate_rsi 14 [10, 12, 11] ! 2 \<le> 100"
  using rsi_bounds [of 2 "[10, 12, 11]" 14] by simp

text \<open>
  C15. The engine computes the textbook RSI: at every row the value is
  \<open>100 * avg_gain / (avg_gain + avg_loss)\<close> of the two rolling averages, and
  50 where both averages are 0.
\<close>

theorem rsi_matches_reference:
  "calculate_rsi p xs =
     map2 rsi_reference (rolling_mean p (map gain_of (diff xs)))
                        (rolling_mean p (map loss_of (diff xs)))"
proof -
  let ?g = "rolling_mean p (map gain_of (diff xs))" and ?l = "rolling_mean p (map loss_of (diff xs))"
  have "rsi_value (?g ! i) (?l ! i) = rsi_reference (?g ! i) (?l ! i)" if "i < length xs" for i
  proof (rule rsi_value_reference)
    have "?g ! i \<in> set ?g" and "?l ! i \<in> set ?l" using that by simp_all
    then show "0 \<le> ?g ! i" and "0 \<le> ?l ! i" using rsi_avg_nonneg by blast+
  qed
  then show ?thesis by (simp add: calculate_rsi_def Let_def list_eq_iff_nth_eq)
qed

lemma calculate_rsi_replicate: "calculate_rsi p (replicate n c) = replicate n 50"
proof -
  have d: "\<forall>x\<in>set (map gain_of (diff (replicate n c))). x = 0"
          "\<forall>x\<in>set (map loss_of (diff (replicate n c))). x = 0"
    by (auto simp: in_set_conv_nth diff_nth gain_of_def loss_of_def)
  show ?thesis
    unfolding calculate_rsi_def Let_def rolling_mean_zeros [OF d(1)] rolling_mean_zeros [OF d(2)]
    by (simp add: rsi_value_zero_loss zip_replicate)
qed

lemma calculate_rsi_first:
  assumes "xs \<noteq> []"
  shows "calculate_rsi p xs ! 0 = 50"
proof -
  have w: "set (trailing_window p 0 ys) \<subseteq> {ys ! 0}" for ys :: "real list"
    by (cases ys) (auto simp: trailing_window_def dest: in_set_dropD)
  have z: "\<forall>x\<in>set (trailing_window p 0 (map f (diff xs))). x = 0"
    if "f None = 0" for f :: "real option \<Rightarrow> real"
    using w [of "map f (diff xs)"] assms that by (auto simp: diff_nth)
  have "rolling_mean p (map gain_of (diff xs)) ! 0 = 0"
       "rolling_mean p (map loss_of (diff xs)) ! 0 = 0"
    using assms z [of gain_of] z [of loss_of]
    by (simp_all add: rolling_mean_nth mean_zeros gain_of_def loss_of_def)
  with assms show ?thesis by (simp add: calculate_rsi_nth rsi_value_zero_loss)
qed

text \<open>
  C16. Where the window holds gains but no loss, \<open>avg_gain / avg_loss\<close> is
  \<open>inf\<close> and the RSI is 100, not the neutral 50: on a non-decreasing series,
  every row that rose from the row before reads 100.
\<close>

theorem rsi_rising_100:
  assumes "sorted xs" and "0 < p" and "0 < i" and "i < length xs"
    and "xs ! (i - 1) < xs ! i"
  shows "calculate_rsi p xs ! i = 100"
proof -
  let ?g = "map gain_of (diff xs)" and ?l = "map loss_of (diff xs)"
  have al: "rolling_mean p ?l ! i = 0"
    using rolling_mean_zeros [OF loss_of_sorted [OF assms(1)]] assms(4) by simp
  have gi: "?g ! i = xs ! i - xs ! (i - 1)"
    using assms(3-5) by (simp add: diff_nth gain_of_def)
  have "?g ! i \<in> set (trailing_window p i ?g)"
    using assms(2,4) by (intro nth_in_trailing_window) simp_all
  moreover have "\<forall>x\<in>set (trailing_window p i ?g). 0 \<le> x"
    using set_trailing_window [of p i ?g] by auto
  moreover have "0 < ?g ! i" using gi assms(5) by simp
  ultimately have "0 < mean (trailing_window p i ?g)"
    by (intro mean_pos) auto
  then have "rolling_mean p ?g ! i \<noteq> 0"
    using assms(4) by (simp add: rolling_mean_nth)
  with al assms(4) show ?thesis by (simp add: calculate_rsi_nth rsi_value_zero_loss)
qed

theorem rsi_rising_100_witness:
  "sorted [1 :: real, 2] \<and> calculate_rsi 14 [1, 2] ! 1 = 100"
  using rsi_rising_100 [of "[1, 2]" 14 1] by simp

text \<open>
  The indicator of the worked example of the specification (period 2): the
  fall to 90 drives it to 0, the rise to 110 to 100, the fall to 80 to
  \<open>200/7\<close>, and the flat tail back to the neutral 50.
\<close>

lemma rsi_spec_example:
  "calculate_rsi 2 [100, 100, 90, 90, 110, 110, 130, 80, 80, 80] =
     [50, 50, 0, 0, 100, 100, 100, 200 / 7, 0, 50]"
  by (simp add: calculate_rsi_def diff_def shift1_def rolling_mean_def trailing_window_def
      mean_def gain_of_def loss_of_def rsi_value_def upt_rec)

end
