(* ===== verification/Signals.thy ===== *)
theory Signals
  imports Indicator
begin

text \<open>
  The Signal Generator: \<open>generate_signals\<close> of \<open>src/subcode/calculation.py\<close>.
  The \<open>Signal\<close> column holds 0, 1 or -1; here it is the datatype \<open>signal\<close>
  (\<open>Hold\<close>, \<open>Buy\<close>, \<open>Sell\<close>), which is how the loop of
  \<open>backtest_strategy\<close> reads the column (\<open>signal == 1\<close>, \<open>signal == -1\<close>,
  anything else). Each row compares the
  RSI with the previous row's RSI (\<open>shift(1)\<close>, NaN in the first row, where
  every comparison is false). The buy mask is written first and the sell mask
  second, so a row in both masks ends as a sell.
\<close>

datatype signal = Hold | Buy | Sell

text \<open>\<open>(RSI > rsi_oversold) & (RSI.shift(1) <= rsi_oversold)\<close>\<close>

definition buy_cross :: "real \<Rightarrow> real option \<Rightarrow> real \<Rightarrow> bool" where
  "buy_cross rsi_oversold prev cur =
     (rsi_oversold < cur \<and> (case prev of None \<Rightarrow> False | Some p \<Rightarrow> p \<le> rsi_oversold))"

text \<open>\<open>(RSI < rsi_overbought) & (RSI.shift(1) >= rsi_overbought)\<close>\<close>

definition sell_cross :: "real \<Rightarrow> real option \<Rightarrow> real \<Rightarrow> bool" where
  "sell_cross rsi_overbought prev cur =
     (cur < rsi_overbought \<and> (case prev of None \<Rightarrow> False | Some p \<Rightarrow> rsi_overbought \<le> p))"

text \<open>
  One row: the column starts at 0, the buy mask sets 1, then the sell mask
  sets -1 over it.
\<close>

definition signal_at :: "real \<Rightarrow> real \<Rightarrow> real option \<Rightarrow> real \<Rightarrow> signal" where
  "signal_at rsi_overbought rsi_oversold prev cur =
     (let s0 = Hold;
          s1 = (if buy_cross rsi_oversold prev cur then Buy else s0)
      in if sell_cross rsi_overbought prev cur then Sell else s1)"

definition generate_signals :: "real \<Rightarrow> real \<Rightarrow> indicator_series \<Rightarrow> signal list" where
  "generate_signals rsi_overbought rsi_oversold rsi =
     map2 (signal_at rsi_overbought rsi_oversold) (shift1 rsi) rsi"

subsection \<open>Shape of the column\<close>

lemma length_generate_signals [simp, column_simps]:
  "length (generate_signals ob os rsi) = length rsi"
  by (simp add: generate_signals_def)

lemma generate_signals_nth:
  "i < length rsi \<Longrightarrow> generate_signals ob os rsi ! i =
     signal_at ob os (if i = 0 then None else Some (rsi ! (i - 1))) (rsi ! i)"
  by (simp add: generate_signals_def shift1_nth)

lemma signal_at_first [simp]: "signal_at ob os None cur = Hold"
  by (simp add: signal_at_def buy_cross_def sell_cross_def)

lemma buy_sell_exclusive:
  "os < ob \<Longrightarrow> buy_cross os prev cur \<Longrightarrow> \<not> sell_cross ob prev cur"
  by (auto simp: buy_cross_def sell_cross_def split: option.splits)

lemma signal_at_cases:
  assumes "os < ob"
  shows "signal_at ob os prev cur =
           (if buy_cross os prev cur then Buy
            else if sell_cross ob prev cur then Sell else Hold)"
  using buy_sell_exclusive [OF assms] by (auto simp: signal_at_def Let_def)


subsection \<open>Properties of the Signal Generator\<close>

text \<open>
  C17. With validated thresholds (\<open>oversold < overbought\<close>) the two masks never
  overlap, and the column is exactly the crossing rule of the specification:
  Buy where the RSI rises through the oversold line (strictly above now, at or
  below before), Sell where it falls through the overbought line, Hold
  elsewhere and in the first row.
\<close>

theorem signals_crossing_rule:
  assumes "os < ob" and "i < length rsi"
  shows "generate_signals ob os rsi ! i =
           (if 0 < i \<and> os < rsi ! i \<and> rsi ! (i - 1) \<le> os then Buy
            else if 0 < i \<and> rsi ! i < ob \<and> ob \<le> rsi ! (i - 1) then Sell
            else Hold)"
  using assms by (simp add: generate_signals_nth signal_at_cases buy_cross_def sell_cross_def)

theorem signals_crossing_rule_witness:
  "(30::real) < 70 \<and> generate_signals 70 30 [20, 40] ! 1 = Buy"
  using signals_crossing_rule [of 30 70 1 "[20, 40]"] by simp

lemma generate_signals_first:
  "rsi \<noteq> [] \<Longrightarrow> generate_signals ob os rsi ! 0 = Hold"
  by (simp add: generate_signals_nth)

lemma generate_signals_replicate:
  "generate_signals ob os (replicate n c) = replicate n Hold"
  by (auto simp: list_eq_iff_nth_eq generate_signals_nth signal_at_def Let_def buy_cross_def sell_cross_def)

text \<open>
  C18. No lookahead: the signals of the first rows depend only on those rows,
  so appending later data never changes an earlier signal.
\<close>

theorem signals_no_lookahead:
  "take (length xs) (generate_signals ob os (xs @ ys)) = generate_signals ob os xs"
proof (rule nth_equalityI)
  show "length (take (length xs) (generate_signals ob os (xs @ ys))) = length (generate_signals ob os xs)"
    by simp
next
  fix i assume "i < length (take (length xs) (generate_signals ob os (xs @ ys)))"
  then have i: "i < length xs" by simp
  moreover from i have "i - 1 < length xs" by simp
  ultimately have "(xs @ ys) ! i = xs ! i" and "(xs @ ys) ! (i - 1) = xs ! (i - 1)"
    by (simp_all add: nth_append_left)
  with i show "take (length xs) (generate_signals ob os (xs @ ys)) ! i = generate_signals ob os xs ! i"
    by (simp add: generate_signals_nth)
qed

end
