(* ===== verification/Backtest.thy ===== *)
theory Backtest
  imports Signals
begin

text \<open>
  The Strategy Simulator: \<open>backtest_strategy\<close> of \<open>src/subcode/calculation.py\<close>
  (lines 70--122). The loop's local variables (\<open>cash\<close>, \<open>holdings\<close>,
  \<open>total_fees\<close>, the four lists it appends to and \<open>prev_portfolio_value\<close>) are
  the record \<open>bt_state\<close>; one iteration is \<open>backtest_step\<close>, split into the
  code's three branches (\<open>execute_buy\<close>, \<open>execute_sell\<close>, \<open>carry_position\<close>) and
  the bookkeeping every row does (\<open>record_day\<close>); the \<open>for\<close> loop is
  \<open>backtest_loop\<close>; the column assignments after the loop are
  \<open>backtest_strategy\<close>. Exceptions are the \<open>Inl\<close> values of \<open>bt_error\<close>:
  \<^item> \<open>OverflowError\<close> and \<open>ValueError\<close>: \<open>int(cash // price)\<close> at a buy
    with a zero close. The close is a NumPy \<open>float64\<close>, so \<open>cash // 0.0\<close>
    does not raise but gives \<open>inf\<close> or \<open>-inf\<close> for non-zero cash (and
    \<open>int\<close> raises \<open>OverflowError\<close>) and \<open>nan\<close> for zero cash (and \<open>int\<close>
    raises \<open>ValueError\<close>);
  \<^item> \<open>LengthMismatch\<close>: \<open>data['Positions'] = positions\<close> with a list shorter
    than the frame, which pandas refuses with a \<open>ValueError\<close>.
\<close>

datatype bt_error = OverflowError | ValueError | LengthMismatch

record bt_state =
  cash :: real
  holdings :: int
  total_fees :: real
  positions :: "int list"
  portfolio_values :: "real list"
  trades :: "int list"
  daily_returns :: "real list"
  prev_portfolio_value :: real

definition bt_init :: "real \<Rightarrow> bt_state" where
  "bt_init initial_capital =
     \<lparr>cash = initial_capital, holdings = 0, total_fees = 0, positions = [],
      portfolio_values = [], trades = [], daily_returns = [],
      prev_portfolio_value = initial_capital\<rparr>"

text \<open>Lines 89--95: a buy of \<open>shares\<close> shares at \<open>price\<close>.\<close>

definition execute_buy :: "real \<Rightarrow> real \<Rightarrow> int \<Rightarrow> bt_state \<Rightarrow> bt_state" where
  "execute_buy fee_percentage price shares st =
     (let fee = of_int shares * price * fee_percentage
      in st\<lparr>cash := cash st - (of_int shares * price + fee),
            holdings := holdings st + shares,
            total_fees := total_fees st + fee,
            positions := positions st @ [1]\<rparr>)"

text \<open>Lines 97--103: selling every share held.\<close>

definition execute_sell :: "real \<Rightarrow> real \<Rightarrow> bt_state \<Rightarrow> bt_state" where
  "execute_sell fee_percentage price st =
     (let fee = of_int (holdings st) * price * fee_percentage
      in st\<lparr>cash := cash st + (of_int (holdings st) * price - fee),
            holdings := 0,
            total_fees := total_fees st + fee,
            positions := positions st @ [0]\<rparr>)"

text \<open>Lines 105--106: no trade, the last position is repeated (0 at the start).\<close>

definition carry_position :: "bt_state \<Rightarrow> bt_state" where
  "carry_position st =
     st\<lparr>positions := positions st @ [if positions st = [] then 0 else last (positions st)]\<rparr>"

text \<open>Lines 108--114, run on every row after the branch.\<close>

definition record_day :: "real \<Rightarrow> int \<Rightarrow> bt_state \<Rightarrow> bt_state" where
  "record_day price trade st =
     (let portfolio_value = cash st + of_int (holdings st) * price;
          prev = prev_portfolio_value st;
          daily_return = (if prev \<noteq> 0 then (portfolio_value - prev) / prev else 0)
      in st\<lparr>portfolio_values := portfolio_values st @ [portfolio_value],
            trades := trades st @ [trade],
            daily_returns := daily_returns st @ [daily_return],
            prev_portfolio_value := portfolio_value\<rparr>)"

text \<open>
  One iteration of the loop (lines 83--114). In the buy branch with no share
  affordable (\<open>shares > 0\<close> fails) the code appends nothing to \<open>positions\<close>:
  neither the inner \<open>if\<close> nor the outer \<open>else\<close> runs.
\<close>

fun backtest_step :: "real \<Rightarrow> bt_state \<Rightarrow> real \<times> signal \<Rightarrow> bt_error + bt_state" where
  "backtest_step fee_percentage st (price, signal) =
     (if signal = Buy \<and> holdings st = 0 then
        (if price = 0 then Inl (if cash st = 0 then ValueError else OverflowError)
         else
           (let shares = \<lfloor>cash st / price\<rfloor>
            in if 0 < shares
               then Inr (record_day price 1 (execute_buy fee_percentage price shares st))
               else Inr (record_day price 0 st)))
      else if signal = Sell \<and> 0 < holdings st then
        Inr (record_day price (-1) (execute_sell fee_percentage price st))
      else Inr (record_day price 0 (carry_position st)))"

fun backtest_loop :: "real \<Rightarrow> bt_state \<Rightarrow> (real \<times> signal) list \<Rightarrow> bt_error + bt_state" where
  "backtest_loop fee_percentage st [] = Inr st"
| "backtest_loop fee_percentage st (row # rows) =
     (case backtest_step fee_percentage st row of
        Inl e \<Rightarrow> Inl e
      | Inr st' \<Rightarrow> backtest_loop fee_percentage st' rows)"

text \<open>
  The whole function: the loop from the initial state, then the column
  assignments of lines 117--121, of which only \<open>Positions\<close> can have the wrong
  length. The result is the final loop state, whose lists are the new columns.
\<close>

definition backtest_strategy ::
  "(real \<times> signal) list \<Rightarrow> real \<Rightarrow> real \<Rightarrow> bt_error + bt_state" where
  "backtest_strategy data initial_capital fee_percentage =
     (case backtest_loop fee_percentage (bt_init initial_capital) data of
        Inl e \<Rightarrow> Inl e
      | Inr st \<Rightarrow> if length (positions st) \<noteq> length data then Inl LengthMismatch else Inr st)"


subsection \<open>Effect of one iteration and of the loop\<close>

lemma backtest_strategy_Inr:
  "backtest_strategy rows c f = Inr st \<longleftrightarrow>
     backtest_loop f (bt_init c) rows = Inr st \<and> length (positions st) = length rows"
  by (auto simp: backtest_strategy_def split: sum.splits)

lemma record_day_fields [simp, bt_field_simps]:
  "cash (record_day p t st) = cash st"
  "holdings (record_day p t st) = holdings st"
  "total_fees (record_day p t st) = total_fees st"
  "positions (record_day p t st) = positions st"
  "portfolio_values (record_day p t st) = portfolio_values st @ [cash st + of_int (holdings st) * p]"
  "trades (record_day p t st) = trades st @ [t]"
  "prev_portfolio_value (record_day p t st) = cash st + of_int (holdings st) * p"
  "length (daily_returns (record_day p t st)) = Suc (length (daily_returns st))"
  by (simp_all add: record_day_def Let_def)

lemma execute_buy_fields [simp, bt_field_simps]:
  "cash (execute_buy f p sh st) = cash st - (of_int sh * p + of_int sh * p * f)"
  "holdings (execute_buy f p sh st) = holdings st + sh"
  "total_fees (execute_buy f p sh st) = total_fees st + of_int sh * p * f"
  "positions (execute_buy f p sh st) = positions st @ [1]"
  "portfolio_values (execute_buy f p sh st) = portfolio_values st"
  "trades (execute_buy f p sh st) = trades st"
  "daily_returns (execute_buy f p sh st) = daily_returns st"
  "prev_portfolio_value (execute_buy f p sh st) = prev_portfolio_value st"
  by (simp_all add: execute_buy_def Let_def)

lemma execute_sell_fields [simp, bt_field_simps]:
  "cash (execute_sell f p st) = cash st + (of_int (holdings st) * p - of_int (holdings st) * p * f)"
  "holdings (execute_sell f p st) = 0"
  "total_fees (execute_sell f p st) = total_fees st + of_int (holdings st) * p * f"
  "positions (execute_sell f p st) = positions st @ [0]"
  "portfolio_values (execute_sell f p st) = portfolio_values st"
  "trades (execute_sell f p st) = trades st"
  "daily_returns (execute_sell f p st) = daily_returns st"
  "prev_portfolio_value (execute_sell f p st) = prev_portfolio_value st"
  by (simp_all add: execute_sell_def Let_def)

lemma carry_position_fields [simp, bt_field_simps]:
  "cash (carry_position st) = cash st"
  "holdings (carry_position st) = holdings st"
  "total_fees (carry_position st) = total_fees st"
  "length (positions (carry_position st)) = Suc (length (positions st))"
  "portfolio_values (carry_position st) = portfolio_values st"
  "trades (carry_position st) = trades st"
  "daily_returns (carry_position st) = daily_returns st"
  "prev_portfolio_value (carry_position st) = prev_portfolio_value st"
  by (simp_all add: carry_position_def)

declare backtest_step.simps [simp del]

lemma backtest_step_Inr_cases:
  assumes "backtest_step f st (p, s) = Inr st'"
  obtains (buy) "s = Buy" "holdings st = 0" "p \<noteq> 0" "0 < \<lfloor>cash st / p\<rfloor>"
      "st' = record_day p 1 (execute_buy f p \<lfloor>cash st / p\<rfloor> st)"
  | (skip) "s = Buy" "holdings st = 0" "p \<noteq> 0" "\<lfloor>cash st / p\<rfloor> \<le> 0" "st' = record_day p 0 st"
  | (sell) "s = Sell" "0 < holdings st" "st' = record_day p (-1) (execute_sell f p st)"
  | (hold) "\<not> (s = Buy \<and> holdings st = 0)" "\<not> (s = Sell \<and> 0 < holdings st)"
      "st' = record_day p 0 (carry_position st)"
  using assms by (auto simp: backtest_step.simps Let_def split: if_splits)

lemma backtest_step_Inl:
  "backtest_step f st (p, s) = Inl e \<longleftrightarrow> s = Buy \<and> holdings st = 0 \<and> p = 0 \<and> e = (if cash st = 0 then ValueError else OverflowError)"
  by (auto simp: backtest_step.simps Let_def)

lemma backtest_loop_append:
  "backtest_loop f st (xs @ ys) =
     (case backtest_loop f st xs of Inl e \<Rightarrow> Inl e | Inr st' \<Rightarrow> backtest_loop f st' ys)"
  by (induction xs arbitrary: st) (simp_all split: sum.split)

lemma backtest_loop_snoc:
  "backtest_loop f st (xs @ [x]) =
     (case backtest_loop f st xs of Inl e \<Rightarrow> Inl e | Inr st' \<Rightarrow> backtest_step f st' x)"
  by (simp add: backtest_loop_append split: sum.split)

lemma backtest_step_extends:
  assumes "backtest_step f st (p, s) = Inr st'"
  shows "portfolio_values st' = portfolio_values st @ [cash st' + of_int (holdings st') * p] \<and>
         length (trades st') = Suc (length (trades st)) \<and>
         length (daily_returns st') = Suc (length (daily_returns st)) \<and>
         length (positions st) \<le> length (positions st') \<and>
         length (positions st') \<le> Suc (length (positions st))"
  using assms by (cases rule: backtest_step_Inr_cases) simp_all

lemma backtest_loop_split:
  assumes "backtest_loop f st (xs @ ys) = Inr st'"
  obtains s where "backtest_loop f st xs = Inr s" and "backtest_loop f s ys = Inr st'"
  using assms by (auto simp: backtest_loop_append split: sum.splits)

lemma backtest_loop_Cons_Inr:
  assumes "backtest_loop f st (r # rows) = Inr st'"
  obtains s where "backtest_step f st r = Inr s" and "backtest_loop f s rows = Inr st'"
  using assms by (auto split: sum.splits)

lemma backtest_loop_extends:
  "backtest_loop f st rows = Inr st' \<Longrightarrow>
     (\<exists>zs. portfolio_values st' = portfolio_values st @ zs \<and> length zs = length rows) \<and>
     length (trades st') = length (trades st) + length rows \<and>
     length (daily_returns st') = length (daily_returns st) + length rows \<and>
     length (positions st) \<le> length (positions st')"
proof (induction rows arbitrary: st)
  case Nil
  then show ?case by simp
next
  case (Cons r rows)
  from Cons.prems obtain s where s: "backtest_step f st r = Inr s" and rest: "backtest_loop f s rows = Inr st'"
    by (rule backtest_loop_Cons_Inr)
  obtain p sg where r: "r = (p, sg)" by fastforce
  from s r have step: "portfolio_values s = portfolio_values st @ [cash s + of_int (holdings s) * p] \<and>
         length (trades s) = Suc (length (trades st)) \<and>
         length (daily_returns s) = Suc (length (daily_returns st)) \<and>
         length (positions st) \<le> length (positions s)"
    using backtest_step_extends [of f st p sg s] by simp
  from Cons.IH [OF rest] obtain zs where
    zs: "portfolio_values st' = portfolio_values s @ zs" "length zs = length rows" and
    more: "length (trades st') = length (trades s) + length rows"
          "length (daily_returns st') = length (daily_returns s) + length rows"
          "length (positions s) \<le> length (positions st')"
    by blast
  show ?case
  proof (intro conjI)
    show "\<exists>zs. portfolio_values st' = portfolio_values st @ zs \<and> length zs = length (r # rows)"
      using step zs by (intro exI [of _ "[cash s + of_int (holdings s) * p] @ zs"]) simp
  qed (use step more in simp_all)
qed

lemma backtest_loop_prefix:
  assumes "backtest_loop f st0 rows = Inr st" and "t \<le> length rows"
  obtains st_t zs where "backtest_loop f st0 (take t rows) = Inr st_t"
    and "backtest_loop f st_t (drop t rows) = Inr st"
    and "portfolio_values st = portfolio_values st_t @ zs"
proof -
  have "rows = take t rows @ drop t rows" by simp
  with assms(1) obtain st_t where pre: "backtest_loop f st0 (take t rows) = Inr st_t"
      and post: "backtest_loop f st_t (drop t rows) = Inr st"
    by (metis backtest_loop_split)
  from backtest_loop_extends [OF post] obtain zs where "portfolio_values st = portfolio_values st_t @ zs"
    by blast
  with pre post show ?thesis by (rule that)
qed

lemma backtest_loop_value_nth:
  assumes loop: "backtest_loop f (bt_init c) rows = Inr st" and t: "t < length rows"
  shows "\<exists>st_t. backtest_loop f (bt_init c) (take (Suc t) rows) = Inr st_t \<and>
           portfolio_values st ! t = cash st_t + of_int (holdings st_t) * fst (rows ! t)"
proof -
  have "Suc t \<le> length rows" using t by simp
  then obtain st_t zs where pre: "backtest_loop f (bt_init c) (take (Suc t) rows) = Inr st_t"
      and ext: "portfolio_values st = portfolio_values st_t @ zs"
    by (rule backtest_loop_prefix [OF loop]) blast
  have split: "take (Suc t) rows = take t rows @ [rows ! t]"
    using t by (simp add: take_Suc_conv_app_nth)
  with pre obtain s where s: "backtest_loop f (bt_init c) (take t rows) = Inr s"
      and last: "backtest_loop f s [rows ! t] = Inr st_t"
    by (metis backtest_loop_split)
  from last obtain p sg where "rows ! t = (p, sg)" and step: "backtest_step f s (p, sg) = Inr st_t"
    by (cases "rows ! t") (auto split: sum.splits)
  then have pv_t: "portfolio_values st_t = portfolio_values s @ [cash st_t + of_int (holdings st_t) * p]"
    and "fst (rows ! t) = p"
    using backtest_step_extends [OF step] by simp_all
  moreover from backtest_loop_extends [OF s] t have "length (portfolio_values s) = t"
    by (auto simp: bt_init_def)
  ultimately show ?thesis using pre ext by (auto simp: nth_append)
qed

lemma backtest_columns_length:
  assumes "backtest_strategy rows c f = Inr st"
  shows "length (portfolio_values st) = length rows \<and> length (positions st) = length rows \<and>
         length (trades st) = length rows \<and> length (daily_returns st) = length rows"
proof -
  from assms have loop: "backtest_loop f (bt_init c) rows = Inr st"
    and pos: "length (positions st) = length rows"
    by (simp_all add: backtest_strategy_Inr)
  from backtest_loop_extends [OF loop] pos show ?thesis by (auto simp: bt_init_def)
qed

lemma backtest_step_value_at_close:
  assumes "backtest_step f st (p, s) = Inr st'"
  shows "cash st' + of_int (holdings st') * p =
           cash st + of_int (holdings st) * p - (total_fees st' - total_fees st)"
  using assms by (cases rule: backtest_step_Inr_cases) (simp_all add: algebra_simps)

lemma backtest_loop_last_step:
  assumes "backtest_loop f st0 rows = Inr st" and "Suc t < length rows"
  obtains s0 s1 where "backtest_loop f st0 (take (Suc t) rows) = Inr s0"
    and "backtest_loop f st0 (take (Suc (Suc t)) rows) = Inr s1"
    and "backtest_step f s0 (rows ! Suc t) = Inr s1"
proof -
  from assms obtain s1 zs where s1: "backtest_loop f st0 (take (Suc (Suc t)) rows) = Inr s1"
    by (metis Suc_leI backtest_loop_prefix)
  have "take (Suc (Suc t)) rows = take (Suc t) rows @ [rows ! Suc t]"
    using assms(2) by (simp add: take_Suc_conv_app_nth)
  with s1 obtain s0 where "backtest_loop f st0 (take (Suc t) rows) = Inr s0"
      and "backtest_step f s0 (rows ! Suc t) = Inr s1"
    by (auto simp: backtest_loop_snoc split: sum.splits)
  then show ?thesis using s1 that by blast
qed

lemma record_day_return:
  "\<exists>r. daily_returns (record_day p t st) = daily_returns st @ [r] \<and>
     (prev_portfolio_value st \<noteq> 0 \<longrightarrow>
        prev_portfolio_value st * (1 + r) = prev_portfolio_value (record_day p t st))"
  by (simp add: record_day_def Let_def field_simps)

lemma backtest_step_return:
  assumes "backtest_step f st (p, s) = Inr st'"
  shows "\<exists>r. daily_returns st' = daily_returns st @ [r] \<and>
     (prev_portfolio_value st \<noteq> 0 \<longrightarrow> prev_portfolio_value st * (1 + r) = prev_portfolio_value st')"
  using assms
  by (cases rule: backtest_step_Inr_cases)
     (use record_day_return [of p _ "execute_buy f p _ st"] record_day_return [of p _ st]
          record_day_return [of p _ "execute_sell f p st"] record_day_return [of p _ "carry_position st"]
      in simp_all)

lemma backtest_step_prev:
  "backtest_step f st (p, s) = Inr st' \<Longrightarrow> prev_portfolio_value st' = cash st' + of_int (holdings st') * p"
  by (erule backtest_step_Inr_cases) simp_all

lemma backtest_loop_prev:
  "backtest_loop f (bt_init c) rows = Inr st \<Longrightarrow> prev_portfolio_value st = last (c # portfolio_values st)"
proof (induction rows arbitrary: st rule: rev_induct)
  case Nil
  then show ?case by (auto simp: bt_init_def)
next
  case (snoc x rows)
  then obtain m where "backtest_loop f (bt_init c) rows = Inr m" and step: "backtest_step f m x = Inr st"
    by (auto simp: backtest_loop_snoc split: sum.splits)
  then show ?case
    using backtest_step_extends [of f m "fst x" "snd x" st] backtest_step_prev [of f m "fst x" "snd x" st]
    by (cases x) simp
qed

lemma backtest_loop_compound:
  "backtest_loop f (bt_init c) rows = Inr st \<Longrightarrow> c \<noteq> 0 \<Longrightarrow>
     0 \<notin> set (butlast (portfolio_values st)) \<Longrightarrow>
     c * (\<Prod>r\<leftarrow>daily_returns st. 1 + r) = prev_portfolio_value st"
proof (induction rows arbitrary: st rule: rev_induct)
  case Nil
  then show ?case by (auto simp: bt_init_def)
next
  case (snoc x rows)
  then obtain m where m: "backtest_loop f (bt_init c) rows = Inr m" and step: "backtest_step f m x = Inr st"
    by (auto simp: backtest_loop_snoc split: sum.splits)
  obtain p s where x: "x = (p, s)" by fastforce
  have pv: "portfolio_values st = portfolio_values m @ [cash st + of_int (holdings st) * p]"
    using backtest_step_extends [of f m p s st] step x by simp
  with snoc.prems(3) have nz: "0 \<notin> set (portfolio_values m)" by simp
  then have "0 \<notin> set (butlast (portfolio_values m))" by (meson in_set_butlastD)
  with snoc.IH [OF m snoc.prems(2)] have ih: "c * (\<Prod>r\<leftarrow>daily_returns m. 1 + r) = prev_portfolio_value m" .
  have "prev_portfolio_value m \<noteq> 0"
    using backtest_loop_prev [OF m] nz snoc.prems(2)
    by (cases "portfolio_values m" rule: rev_cases) auto
  with backtest_step_return [of f m p s st] step x obtain r where
    "daily_returns st = daily_returns m @ [r]" "prev_portfolio_value m * (1 + r) = prev_portfolio_value st"
    by auto
  with ih show ?case by (simp add: mult.assoc [symmetric])
qed

lemma backtest_step_flag:
  assumes "backtest_step f st (p, s) = Inr st'" and "0 \<le> holdings st \<and> (if positions st = [] then 0 else last (positions st)) = (if 0 < holdings st then 1 else 0)"
  shows "0 \<le> holdings st' \<and> (if positions st' = [] then 0 else last (positions st')) = (if 0 < holdings st' then 1 else 0) \<and> (\<exists>zs. positions st' = positions st @ zs)"
  using assms(1)
proof (cases rule: backtest_step_Inr_cases)
  case hold
  with assms(2) show ?thesis by (auto simp: carry_position_def)
next
  case skip
  with assms(2) show ?thesis by (simp split: if_splits)
qed (use assms(2) in auto)

lemma backtest_loop_flag:
  "backtest_loop f st rows = Inr st' \<Longrightarrow> 0 \<le> holdings st \<and> (if positions st = [] then 0 else last (positions st)) = (if 0 < holdings st then 1 else 0) \<Longrightarrow>
     0 \<le> holdings st' \<and> (if positions st' = [] then 0 else last (positions st')) = (if 0 < holdings st' then 1 else 0) \<and> (\<exists>zs. positions st' = positions st @ zs)"
proof (induction rows arbitrary: st)
  case Nil
  then show ?case by (simp split: if_splits)
next
  case (Cons r rows)
  from Cons.prems(1) obtain s where s: "backtest_step f st r = Inr s"
      and rest: "backtest_loop f s rows = Inr st'"
    by (rule backtest_loop_Cons_Inr)
  from s Cons.prems(2) have "0 \<le> holdings s \<and> (if positions s = [] then 0 else last (positions s)) = (if 0 < holdings s then 1 else 0)" "\<exists>zs. positions s = positions st @ zs"
    using backtest_step_flag [of f st "fst r" "snd r" s] by simp_all
  with Cons.IH [OF rest] show ?case by auto
qed

subsection \<open>Properties of the Strategy Simulator\<close>

text \<open>
  C1. The portfolio-value column is the ledger identity of the specification:
  row \<open>t\<close> of \<open>Portfolio Value\<close> is \<open>cash + holdings * close\<close> of the ledger
  left by the first \<open>t + 1\<close> iterations, evaluated at that row's close.
\<close>

theorem portfolio_value_identity:
  assumes run: "backtest_strategy rows c f = Inr st" and t: "t < length rows"
  shows "\<exists>st_t. backtest_loop f (bt_init c) (take (Suc t) rows) = Inr st_t \<and>
           portfolio_values st ! t = cash st_t + of_int (holdings st_t) * fst (rows ! t)"
  using run t by (simp add: backtest_strategy_Inr backtest_loop_value_nth)

theorem portfolio_value_identity_witness:
  "\<exists>st. backtest_strategy [(100, Hold), (100, Buy)] 150 (1/100) = Inr st \<and>
     (\<exists>st_t. backtest_loop (1/100) (bt_init 150) (take 2 [(100, Hold), (100, Buy)]) = Inr st_t \<and>
        portfolio_values st ! 1 = cash st_t + of_int (holdings st_t) * fst ([(100::real, Hold), (100, Buy)] ! 1)) \<and>
     portfolio_values st ! 1 = 149"
proof -
  have "\<exists>st. backtest_strategy [(100, Hold), (100, Buy)] 150 (1/100) = Inr st"
    by (simp add: backtest_strategy_def bt_init_def backtest_step.simps record_day_def
        execute_buy_def carry_position_def)
  then obtain st where r: "backtest_strategy [(100, Hold), (100, Buy)] 150 (1/100) = Inr st" ..
  from portfolio_value_identity [OF r, of 1] obtain st_t
    where t: "backtest_loop (1/100) (bt_init 150) (take 2 [(100, Hold), (100, Buy)]) = Inr st_t"
      and pv: "portfolio_values st ! 1 = cash st_t + of_int (holdings st_t) * fst ([(100::real, Hold), (100, Buy)] ! 1)"
    by auto
  have "cash st_t + of_int (holdings st_t) * 100 = 149"
    using t [symmetric] by (simp add: bt_init_def backtest_step.simps record_day_def execute_buy_def
        carry_position_def)
  with r t pv show ?thesis by auto
qed

lemma backtest_step_fees_mono:
  assumes "0 \<le> f" and "0 \<le> p" and "backtest_step f st (p, s) = Inr st'"
  shows "total_fees st \<le> total_fees st'"
  using assms(3)
proof (cases rule: backtest_step_Inr_cases)
  case buy
  then show ?thesis using assms(1,2) by simp
next
  case sell
  then show ?thesis using assms(1,2) by simp
qed simp_all

lemma backtest_loop_fees_mono:
  "0 \<le> f \<Longrightarrow> \<forall>r\<in>set rows. 0 \<le> fst r \<Longrightarrow> backtest_loop f st rows = Inr st' \<Longrightarrow>
     total_fees st \<le> total_fees st'"
proof (induction rows arbitrary: st)
  case Nil
  then show ?case by simp
next
  case (Cons r rows)
  from Cons.prems(3) obtain s where s: "backtest_step f st r = Inr s"
      and rest: "backtest_loop f s rows = Inr st'"
    by (rule backtest_loop_Cons_Inr)
  have "total_fees st \<le> total_fees s"
    using backtest_step_fees_mono [of f "fst r" st "snd r" s] Cons.prems(1,2) s by simp
  also have "total_fees s \<le> total_fees st'"
    using Cons.IH [OF Cons.prems(1) _ rest] Cons.prems(2) by simp
  finally show ?case .
qed

text \<open>
  C2. Cumulative fees never decrease along a run: with a non-negative fee rate
  and non-negative closes, the ledger after \<open>i\<close> rows has paid no more fees
  than the ledger after \<open>j \<ge> i\<close> rows.
\<close>

theorem fees_monotone:
  assumes "0 \<le> f" and "\<forall>r\<in>set rows. 0 \<le> fst r" and "i \<le> j"
    and "backtest_loop f (bt_init c) (take i rows) = Inr s1"
    and "backtest_loop f (bt_init c) (take j rows) = Inr s2"
  shows "total_fees s1 \<le> total_fees s2"
proof -
  have "take j rows = take i rows @ drop i (take j rows)"
    using assms(3) by (metis append_take_drop_id min.absorb1 take_take)
  with assms(5) obtain s where a: "backtest_loop f (bt_init c) (take i rows) = Inr s"
      and b: "backtest_loop f s (drop i (take j rows)) = Inr s2"
    by (metis backtest_loop_split)
  from a assms(4) have "s = s1" by simp
  moreover have "\<forall>r\<in>set (drop i (take j rows)). 0 \<le> fst r"
    using assms(2) by (meson in_set_dropD in_set_takeD)
  ultimately show ?thesis using backtest_loop_fees_mono [OF assms(1) _ b] by simp
qed

theorem fees_monotone_witness:
  "\<exists>s1 s2. backtest_loop (1/100) (bt_init 150) (take 2 [(100, Hold), (100, Buy), (100, Sell)]) = Inr s1 \<and>
     backtest_loop (1/100) (bt_init 150) (take 3 [(100, Hold), (100, Buy), (100, Sell)]) = Inr s2 \<and>
     total_fees s1 \<le> total_fees s2 \<and> total_fees s2 = 2"
proof -
  let ?rows = "[(100::real, Hold), (100, Buy), (100, Sell)]"
  have "\<exists>s1. backtest_loop (1/100) (bt_init 150) (take 2 ?rows) = Inr s1"
    and "\<exists>s2. backtest_loop (1/100) (bt_init 150) (take 3 ?rows) = Inr s2 \<and> total_fees s2 = 2"
    by (simp_all add: bt_init_def backtest_step.simps record_day_def execute_buy_def
        execute_sell_def carry_position_def)
  then obtain s1 s2 where r1: "backtest_loop (1/100) (bt_init 150) (take 2 ?rows) = Inr s1"
      and r2: "backtest_loop (1/100) (bt_init 150) (take 3 ?rows) = Inr s2"
      and f2: "total_fees s2 = 2" by blast
  have "total_fees s1 \<le> total_fees s2"
    by (rule fees_monotone [OF _ _ _ r1 r2]) simp_all
  with r1 r2 f2 show ?thesis by blast
qed

lemma backtest_loop_positions_le:
  "backtest_loop f st rows = Inr st' \<Longrightarrow> length (positions st') \<le> length (positions st) + length rows"
proof (induction rows arbitrary: st)
  case Nil
  then show ?case by simp
next
  case (Cons r rows)
  from Cons.prems obtain s where s: "backtest_step f st r = Inr s"
      and rest: "backtest_loop f s rows = Inr st'"
    by (rule backtest_loop_Cons_Inr)
  have "length (positions s) \<le> Suc (length (positions st))"
    using backtest_step_extends [of f st "fst r" "snd r" s] s by simp
  with Cons.IH [OF rest] show ?case by simp
qed

lemma floor_cash_le_zero:
  "0 < p \<Longrightarrow> c < p \<Longrightarrow> \<lfloor>c / p\<rfloor> \<le> 0"
  by (simp add: floor_le_iff)

text \<open>
  C3. A buy signal that finds the position flat but cannot afford one share
  appends no entry to \<open>positions\<close>, so the run cannot end with a
  \<open>Positions\<close> column as long as the frame: \<open>backtest_strategy\<close> raises instead
  of the silent no-trade the specification promises.
\<close>

theorem unaffordable_buy_fails:
  assumes pre: "backtest_loop f (bt_init c) (take t rows) = Inr s"
    and t: "t < length rows" and row: "rows ! t = (p, Buy)"
    and flat: "holdings s = 0" and p: "0 < p" and poor: "cash s < p"
  shows "\<exists>e. backtest_strategy rows c f = Inl e"
proof (cases "backtest_loop f (bt_init c) rows")
  case (Inl e)
  then show ?thesis by (simp add: backtest_strategy_def)
next
  case (Inr st)
  have rows: "rows = take t rows @ [(p, Buy)] @ drop (Suc t) rows"
    using t row by (metis Cons_nth_drop_Suc append_Cons append_self_conv2 append_take_drop_id)
  with Inr obtain s' where a: "backtest_loop f (bt_init c) (take t rows) = Inr s'"
      and b: "backtest_loop f s' ([(p, Buy)] @ drop (Suc t) rows) = Inr st"
    by (metis backtest_loop_split)
  from a pre have "s' = s" by simp
  with b obtain s1 where step: "backtest_step f s (p, Buy) = Inr s1"
      and rest: "backtest_loop f s1 (drop (Suc t) rows) = Inr st"
    by (auto split: sum.splits)
  from step flat p poor have "s1 = record_day p 0 s"
    by (simp add: backtest_step.simps Let_def floor_cash_le_zero)
  then have "length (positions s1) = length (positions s)" by simp
  moreover have "length (positions s) \<le> t"
    using backtest_loop_positions_le [OF pre] t by (simp add: bt_init_def)
  moreover have "length (positions st) \<le> length (positions s1) + (length rows - Suc t)"
    using backtest_loop_positions_le [OF rest] by simp
  ultimately have "length (positions st) \<noteq> length rows" using t by linarith
  with Inr show ?thesis by (simp add: backtest_strategy_def)
qed

theorem unaffordable_buy_fails_witness:
  "\<exists>s. backtest_loop 0 (bt_init 50) (take 1 [(100, Hold), (100, Buy)]) = Inr s \<and>
       holdings s = 0 \<and> cash s < 100 \<and>
       (\<exists>e. backtest_strategy [(100, Hold), (100::real, Buy)] 50 0 = Inl e)"
proof -
  let ?rows = "[(100::real, Hold), (100, Buy)]"
  have "\<exists>s. backtest_loop 0 (bt_init 50) (take 1 ?rows) = Inr s"
    by (simp add: bt_init_def backtest_step.simps record_day_def carry_position_def)
  then obtain s where r: "backtest_loop 0 (bt_init 50) (take 1 ?rows) = Inr s" ..
  have h: "holdings s = 0" and c: "cash s < 100"
    using r by (auto simp: bt_init_def backtest_step.simps record_day_def carry_position_def)
  have "\<exists>e. backtest_strategy ?rows 50 0 = Inl e"
    by (rule unaffordable_buy_fails [OF r _ _ h _ c]) simp_all
  with r h c show ?thesis by blast
qed

text \<open>The exception raised in that example is the pandas length check.\<close>

lemma unaffordable_buy_example:
  "backtest_strategy [(100, Hold), (100::real, Buy)] 50 0 = Inl LengthMismatch"
  by (simp add: backtest_strategy_def bt_init_def backtest_step.simps record_day_def carry_position_def)


lemma floor_shares_cost:
  assumes "0 < p"
  shows "of_int \<lfloor>c / p\<rfloor> * p \<le> c"
proof -
  have "of_int \<lfloor>c / p\<rfloor> \<le> c / p" by (rule of_int_floor_le)
  then have "of_int \<lfloor>c / p\<rfloor> * p \<le> c / p * p"
    using assms by (intro mult_right_mono) simp_all
  with assms show ?thesis by simp
qed

lemma backtest_step_zero_fee_solvent:
  assumes "0 < p" and "0 \<le> cash st" and "0 \<le> holdings st"
    and step: "backtest_step 0 st (p, s) = Inr st'"
  shows "0 \<le> cash st' \<and> 0 \<le> holdings st'"
  using step
proof (cases rule: backtest_step_Inr_cases)
  case buy
  then show ?thesis using floor_shares_cost [OF assms(1), of "cash st"] assms(3) by simp
next
  case sell
  then show ?thesis using assms(1,2) by simp
qed (use assms in simp_all)

lemma backtest_loop_zero_fee_solvent:
  "\<forall>r\<in>set rows. 0 < fst r \<Longrightarrow> 0 \<le> cash st \<Longrightarrow> 0 \<le> holdings st \<Longrightarrow>
     backtest_loop 0 st rows = Inr st' \<Longrightarrow> 0 \<le> cash st'"
proof (induction rows arbitrary: st)
  case Nil
  then show ?case by simp
next
  case (Cons r rows)
  from Cons.prems(4) obtain s where s: "backtest_step 0 st r = Inr s"
      and rest: "backtest_loop 0 s rows = Inr st'"
    by (rule backtest_loop_Cons_Inr)
  have "0 \<le> cash s \<and> 0 \<le> holdings s"
    using backtest_step_zero_fee_solvent [of "fst r" st "snd r" s] Cons.prems(1-3) s by simp
  with Cons.IH [OF _ _ _ rest] Cons.prems(1) show ?case by simp
qed

text \<open>
  C7. Without fees the ledger stays solvent: with non-negative capital and
  positive closes, cash is never negative, because the share count
  \<open>int(cash // price)\<close> never costs more than the cash at hand.
\<close>

theorem zero_fee_cash_nonneg:
  assumes "0 \<le> c" and "\<forall>r\<in>set rows. 0 < fst r"
    and "backtest_loop 0 (bt_init c) rows = Inr st"
  shows "0 \<le> cash st"
  using backtest_loop_zero_fee_solvent [OF assms(2) _ _ assms(3)] assms(1) by (simp add: bt_init_def)

theorem zero_fee_cash_nonneg_witness:
  "\<exists>st. backtest_loop 0 (bt_init 150) [(100, Hold), (100::real, Buy)] = Inr st \<and> 0 \<le> cash st"
proof -
  have "\<exists>st. backtest_loop 0 (bt_init 150) [(100, Hold), (100::real, Buy)] = Inr st"
    by (simp add: bt_init_def backtest_step.simps record_day_def execute_buy_def carry_position_def)
  then obtain st where r: "backtest_loop 0 (bt_init 150) [(100, Hold), (100::real, Buy)] = Inr st" ..
  have "0 \<le> cash st" by (rule zero_fee_cash_nonneg [OF _ _ r]) simp_all
  with r show ?thesis by blast
qed

text \<open>
  C11. A buy from a flat position counts its shares as \<open>int(cash // price)\<close>
  and ignores the fee: it spends the cost of those shares plus the fee on
  them, and the cash it leaves is negative exactly when what is left after
  buying whole shares is smaller than the fee. With any positive fee rate a
  cash that is a whole multiple of the close therefore goes negative.
\<close>

theorem buy_cash_negative_iff:
  assumes "holdings st = 0" and "0 < p" and "0 < \<lfloor>cash st / p\<rfloor>"
  shows "\<exists>st'. backtest_step f st (p, Buy) = Inr st' \<and>
           cash st' = cash st - of_int \<lfloor>cash st / p\<rfloor> * p * (1 + f) \<and>
           (cash st' < 0 \<longleftrightarrow> cash st - of_int \<lfloor>cash st / p\<rfloor> * p < of_int \<lfloor>cash st / p\<rfloor> * p * f)"
  using assms by (simp add: backtest_step.simps Let_def algebra_simps)

theorem buy_cash_negative_iff_witness:
  "\<exists>st'. backtest_step (1/100) (bt_init 100) (100, Buy) = Inr st' \<and> cash st' = -1 \<and> cash st' < 0"
proof -
  have h: "holdings (bt_init 100) = 0" "cash (bt_init 100) = 100" by (simp_all add: bt_init_def)
  from buy_cash_negative_iff [of "bt_init 100" 100 "1/100"] h
  obtain st' where "backtest_step (1/100) (bt_init 100) (100, Buy) = Inr st'"
    and "cash st' = 100 - 100 * (1 + 1/100)" and "cash st' < 0 \<longleftrightarrow> (0::real) < 1"
    by auto
  then show ?thesis by auto
qed

text \<open>
  A positive fee rate does not always lower the final portfolio value: the
  fee shrinks the cash, the cash shrinks a later share count, and fewer
  shares lose less when the price then falls. On this run the zero-fee
  strategy ends at 100 and the 1\% fee strategy at 161.
\<close>

lemma fee_can_raise_final_value:
  "\<exists>s0 s1.
     backtest_strategy [(100, Hold), (100, Buy), (100, Sell), (100, Buy), (10::real, Hold)] 1000 0 = Inr s0 \<and>
     backtest_strategy [(100, Hold), (100, Buy), (100, Sell), (100, Buy), (10, Hold)] 1000 (1 / 100) = Inr s1 \<and>
     last (portfolio_values s0) = 100 \<and> last (portfolio_values s1) = 161"
  by (simp add: backtest_strategy_def bt_init_def backtest_step.simps record_day_def
      execute_buy_def execute_sell_def carry_position_def)

text \<open>
  C12. The loop raises no exception on data without a zero close: every run
  over such rows returns a ledger, so the only error left for
  \<open>backtest_strategy\<close> is the length check of C3.
\<close>

theorem backtest_loop_total:
  "\<forall>r\<in>set rows. fst r \<noteq> 0 \<Longrightarrow> \<exists>st'. backtest_loop f st rows = Inr st'"
proof (induction rows arbitrary: st)
  case Nil
  then show ?case by simp
next
  case (Cons r rows)
  obtain p s where r: "r = (p, s)" by fastforce
  with Cons.prems have "p \<noteq> 0" by simp
  then obtain st1 where "backtest_step f st (p, s) = Inr st1"
    by (cases "backtest_step f st (p, s)") (auto simp: backtest_step_Inl)
  with Cons.IH Cons.prems r show ?case by simp
qed

theorem backtest_loop_total_witness:
  "\<exists>st'. backtest_loop (1/100) (bt_init 500) [(100::real, Buy), (90, Sell)] = Inr st'"
  using backtest_loop_total [of "[(100::real, Buy), (90, Sell)]" "1/100" "bt_init 500"] by simp

text \<open>
  C8. Between two rows the portfolio value changes by the shares held after
  the earlier row times the change of the close, less the fees paid on the
  later row: a trade exchanges cash for shares at the close and costs the
  portfolio exactly its fee (the strategy is self-financing).
\<close>

theorem portfolio_value_change:
  assumes run: "backtest_loop f (bt_init c) rows = Inr st" and t: "Suc t < length rows"
  shows "\<exists>s0 s1. backtest_loop f (bt_init c) (take (Suc t) rows) = Inr s0 \<and>
           backtest_loop f (bt_init c) (take (Suc (Suc t)) rows) = Inr s1 \<and>
           portfolio_values st ! Suc t =
             portfolio_values st ! t + of_int (holdings s0) * (fst (rows ! Suc t) - fst (rows ! t))
             - (total_fees s1 - total_fees s0)"
proof -
  obtain s0 s1 where r0: "backtest_loop f (bt_init c) (take (Suc t) rows) = Inr s0"
      and r1: "backtest_loop f (bt_init c) (take (Suc (Suc t)) rows) = Inr s1"
      and step: "backtest_step f s0 (rows ! Suc t) = Inr s1"
    by (rule backtest_loop_last_step [OF run t])
  obtain v0 where v0: "backtest_loop f (bt_init c) (take (Suc t) rows) = Inr v0"
      "portfolio_values st ! t = cash v0 + of_int (holdings v0) * fst (rows ! t)"
    using backtest_loop_value_nth [OF run, of t] t by auto
  obtain v1 where v1: "backtest_loop f (bt_init c) (take (Suc (Suc t)) rows) = Inr v1"
      "portfolio_values st ! Suc t = cash v1 + of_int (holdings v1) * fst (rows ! Suc t)"
    using backtest_loop_value_nth [OF run t] by auto
  from v0 v1 r0 r1 have "v0 = s0" "v1 = s1" by simp_all
  moreover have "cash s1 + of_int (holdings s1) * fst (rows ! Suc t) =
      cash s0 + of_int (holdings s0) * fst (rows ! Suc t) - (total_fees s1 - total_fees s0)"
    using step by (cases "rows ! Suc t") (simp add: backtest_step_value_at_close)
  ultimately show ?thesis using r0 r1 v0 v1 by (auto simp: algebra_simps)
qed

theorem portfolio_value_change_witness:
  "\<exists>st s0 s1. backtest_loop (1/100) (bt_init 150) [(100, Hold), (100::real, Buy)] = Inr st \<and>
     backtest_loop (1/100) (bt_init 150) (take 1 [(100, Hold), (100::real, Buy)]) = Inr s0 \<and>
     backtest_loop (1/100) (bt_init 150) (take 2 [(100, Hold), (100::real, Buy)]) = Inr s1 \<and>
     portfolio_values st ! 1 = portfolio_values st ! 0 + of_int (holdings s0) * (100 - 100)
       - (total_fees s1 - total_fees s0) \<and>
     total_fees s1 - total_fees s0 = 1"
proof -
  let ?rows = "[(100, Hold), (100::real, Buy)]"
  have "\<exists>st. backtest_loop (1/100) (bt_init 150) ?rows = Inr st"
    by (simp add: bt_init_def backtest_step.simps record_day_def execute_buy_def carry_position_def)
  then obtain st where run: "backtest_loop (1/100) (bt_init 150) ?rows = Inr st" ..
  from portfolio_value_change [OF run, of 0] obtain s0 s1 where
    r0: "backtest_loop (1/100) (bt_init 150) (take 1 ?rows) = Inr s0" and
    r1: "backtest_loop (1/100) (bt_init 150) (take 2 ?rows) = Inr s1" and
    pv: "portfolio_values st ! 1 = portfolio_values st ! 0 + of_int (holdings s0) * (100 - 100)
       - (total_fees s1 - total_fees s0)"
    by auto
  have "total_fees s1 - total_fees s0 = 1"
    using r0 [symmetric] r1 [symmetric]
    by (simp add: bt_init_def backtest_step.simps record_day_def execute_buy_def carry_position_def)
  with run r0 r1 pv show ?thesis by blast
qed

text \<open>
  C9. Compounding the \<open>Strategy Daily Return\<close> column from the initial
  capital gives the final portfolio value, as long as no value before the last
  is zero (the code's \<open>prev_portfolio_value != 0\<close> guard then never sets a
  return to 0).
\<close>

theorem compounded_returns:
  assumes run: "backtest_loop f (bt_init c) rows = Inr st" and "rows \<noteq> []" and "c \<noteq> 0"
    and "0 \<notin> set (butlast (portfolio_values st))"
  shows "c * (\<Prod>r\<leftarrow>daily_returns st. 1 + r) = last (portfolio_values st)"
proof -
  have "portfolio_values st \<noteq> []"
    using backtest_loop_extends [OF run] assms(2) by (auto simp: bt_init_def)
  then show ?thesis
    using backtest_loop_compound [OF run assms(3,4)] backtest_loop_prev [OF run] by simp
qed

theorem compounded_returns_witness:
  "\<exists>st. backtest_loop (1/100) (bt_init 150) [(100, Hold), (100, Buy), (120::real, Sell)] = Inr st \<and>
     150 * (\<Prod>r\<leftarrow>daily_returns st. 1 + r) = last (portfolio_values st) \<and>
     last (portfolio_values st) = 839 / 5"
proof -
  let ?rows = "[(100, Hold), (100, Buy), (120::real, Sell)]"
  have "\<exists>st. backtest_loop (1/100) (bt_init 150) ?rows = Inr st \<and> portfolio_values st = [150, 149, 839 / 5]"
    by (simp add: bt_init_def backtest_step.simps record_day_def execute_buy_def execute_sell_def
        carry_position_def Let_def)
  then obtain st where run: "backtest_loop (1/100) (bt_init 150) ?rows = Inr st"
    and pv: "portfolio_values st = [150, 149, 839 / 5]" by blast
  have "150 * (\<Prod>r\<leftarrow>daily_returns st. 1 + r) = last (portfolio_values st)"
    by (rule compounded_returns [OF run]) (simp_all add: pv)
  with run pv show ?thesis by simp
qed

text \<open>
  C10. In a run that returns, the \<open>Positions\<close> column says at every row
  whether the ledger holds shares after that row: 1 when it does, 0 when it
  is flat, and the share count is never negative.
\<close>

theorem positions_column_flags_holdings:
  assumes run: "backtest_strategy rows c f = Inr st" and t: "t < length rows"
  shows "\<exists>st_t. backtest_loop f (bt_init c) (take (Suc t) rows) = Inr st_t \<and>
           0 \<le> holdings st_t \<and> positions st ! t = (if 0 < holdings st_t then 1 else 0)"
proof -
  from run have loop: "backtest_loop f (bt_init c) rows = Inr st"
    and len: "length (positions st) = length rows"
    by (simp_all add: backtest_strategy_Inr)
  have "Suc t \<le> length rows" using t by simp
  then obtain st_t zs where pre: "backtest_loop f (bt_init c) (take (Suc t) rows) = Inr st_t"
      and post: "backtest_loop f st_t (drop (Suc t) rows) = Inr st"
    by (rule backtest_loop_prefix [OF loop]) blast
  have init: "0 \<le> holdings (bt_init c) \<and> (if positions (bt_init c) = [] then 0 else last (positions (bt_init c))) = (if 0 < holdings (bt_init c) then 1 else 0)" by (simp add: bt_init_def)
  from backtest_loop_flag [OF pre init] have flag: "0 \<le> holdings st_t \<and> (if positions st_t = [] then 0 else last (positions st_t)) = (if 0 < holdings st_t then 1 else 0)" by simp
  from backtest_loop_flag [OF post flag] obtain ys where ys: "positions st = positions st_t @ ys" by blast
  have "length (positions st_t) \<le> Suc t"
    using backtest_loop_positions_le [OF pre] t by (simp add: bt_init_def)
  moreover have "length (positions st) \<le> length (positions st_t) + (length rows - Suc t)"
    using backtest_loop_positions_le [OF post] by simp
  ultimately have lt: "length (positions st_t) = Suc t" using len t by linarith
  then have "positions st ! t = last (positions st_t)"
    using ys by (cases "positions st_t" rule: rev_cases) (auto simp: nth_append)
  moreover have "positions st_t \<noteq> []" using lt by auto
  ultimately show ?thesis using flag pre by auto
qed

theorem positions_column_flags_holdings_witness:
  "\<exists>st st_t. backtest_strategy [(100, Hold), (100, Buy), (120::real, Hold)] 150 (1/100) = Inr st \<and>
     backtest_loop (1/100) (bt_init 150) (take 3 [(100, Hold), (100, Buy), (120::real, Hold)]) = Inr st_t \<and>
     holdings st_t = 1 \<and> positions st ! 2 = 1"
proof -
  let ?rows = "[(100, Hold), (100, Buy), (120::real, Hold)]"
  have "\<exists>st. backtest_strategy ?rows 150 (1/100) = Inr st"
    by (simp add: backtest_strategy_def bt_init_def backtest_step.simps record_day_def
        execute_buy_def carry_position_def)
  then obtain st where run: "backtest_strategy ?rows 150 (1/100) = Inr st" ..
  from positions_column_flags_holdings [OF run, of 2] obtain st_t where
    r: "backtest_loop (1/100) (bt_init 150) (take 3 ?rows) = Inr st_t" and
    p: "positions st ! 2 = (if 0 < holdings st_t then 1 else 0)"
    by (auto simp: numeral_3_eq_3)
  have h: "holdings st_t = 1"
    using r [symmetric] by (simp add: bt_init_def backtest_step.simps record_day_def
        execute_buy_def carry_position_def)
  with run r p show ?thesis by auto
qed

end
