(* ===== verification/Position_Spec.thy ===== *)
theory Position_Spec
  imports Signals
begin

text \<open>
  The abstract contract of the Strategy Simulator's position logic, as the
  specification states it (section 4.3): two states, Flat and Holding, a step
  per row labelled with the row's signal and the trade marker it records
  (1 buy, -1 sell, 0 none), and the runs from Flat. Nothing here mentions cash,
  prices or fees; \<open>Simulator_Refinement\<close> shows that the concrete loop is a
  run of this machine.
\<close>

datatype position = Flat | Holding

inductive pos_step :: "position \<Rightarrow> signal \<Rightarrow> int \<Rightarrow> position \<Rightarrow> bool" where
  enter: "pos_step Flat Buy 1 Holding"
| no_funds: "pos_step Flat Buy 0 Flat"
| leave: "pos_step Holding Sell (-1) Flat"
| stay_flat: "s \<noteq> Buy \<Longrightarrow> pos_step Flat s 0 Flat"
| stay_holding: "s \<noteq> Sell \<Longrightarrow> pos_step Holding s 0 Holding"

code_pred pos_step .

inductive_cases pos_step_FlatE: "pos_step Flat s t q"
inductive_cases pos_step_HoldingE: "pos_step Holding s t q"

inductive pos_reach :: "signal list \<Rightarrow> int list \<Rightarrow> position \<Rightarrow> bool" where
  start: "pos_reach [] [] Flat"
| step: "pos_reach ss ts q \<Longrightarrow> pos_step q s t q' \<Longrightarrow> pos_reach (ss @ [s]) (ts @ [t]) q'"

text \<open>The trade markers with the no-trade rows removed.\<close>

definition nonzero_trades :: "int list \<Rightarrow> int list" where
  "nonzero_trades ts = filter (\<lambda>t. t \<noteq> 0) ts"

text \<open>Buy, sell, buy, sell, \<dots>: entry \<open>k\<close> is 1 for even \<open>k\<close> and -1 for odd \<open>k\<close>.\<close>

definition alternating :: "int list \<Rightarrow> bool" where
  "alternating xs = (xs = map (\<lambda>k. if even k then 1 else -1) [0..<length xs])"

lemma alternating_snoc:
  "alternating (xs @ [x]) \<longleftrightarrow> alternating xs \<and> x = (if even (length xs) then 1 else -1)"
  by (auto simp: alternating_def)

lemma pos_step_trade:
  "pos_step q s t q' \<Longrightarrow>
     (t = 0 \<and> q' = q) \<or> (t = 1 \<and> q = Flat \<and> q' = Holding) \<or> (t = -1 \<and> q = Holding \<and> q' = Flat)"
  by (induction rule: pos_step.induct) auto

lemma pos_reach_alternating:
  "pos_reach ss ts q \<Longrightarrow>
     alternating (nonzero_trades ts) \<and> (q = Holding \<longleftrightarrow> odd (length (nonzero_trades ts)))"
proof (induction rule: pos_reach.induct)
  case start
  then show ?case by (simp add: alternating_def nonzero_trades_def)
next
  case (step ss ts q s t q')
  from step.hyps(2) show ?case
    using step.IH pos_step_trade [OF step.hyps(2)]
    by (auto simp: nonzero_trades_def alternating_snoc)
qed

lemma pos_reach_length: "pos_reach ss ts q \<Longrightarrow> length ts = length ss"
  by (induction rule: pos_reach.induct) auto

end
