(* ===== verification/Simulator_Refinement.thy ===== *)
theory Simulator_Refinement
  imports Backtest Position_Spec
begin

text \<open>
  The refinement of the abstract position machine (\<open>Position_Spec\<close>) by the
  concrete loop (\<open>Backtest\<close>): the abstraction reads Flat or Holding off the
  share count, one call of \<open>backtest_step\<close> is one \<open>pos_step\<close> labelled with the
  row's signal and the trade marker it records, and a whole run of
  \<open>backtest_loop\<close> from \<open>bt_init\<close> is a run of the machine from Flat. The
  alternation of buys and sells then follows from the abstract machine alone.
\<close>

definition position_of :: "bt_state \<Rightarrow> position" where
  "position_of st = (if 0 < holdings st then Holding else Flat)"

lemma position_of_Holding [simp]: "position_of st = Holding \<longleftrightarrow> 0 < holdings st"
  by (simp add: position_of_def)

lemma backtest_step_refines:
  assumes inv: "0 \<le> holdings st" and step: "backtest_step f st (p, s) = Inr st'"
  shows "pos_step (position_of st) s (last (trades st')) (position_of st') \<and> 0 \<le> holdings st'"
  using step
proof (cases rule: backtest_step_Inr_cases)
  case buy
  then show ?thesis by (simp add: position_of_def pos_step.enter)
next
  case skip
  then show ?thesis by (simp add: position_of_def pos_step.no_funds)
next
  case sell
  then show ?thesis by (simp add: position_of_def pos_step.leave)
next
  case hold
  show ?thesis
  proof (cases "0 < holdings st")
    case True
    with hold show ?thesis by (simp add: position_of_def pos_step.stay_holding)
  next
    case False
    with inv hold show ?thesis by (simp add: position_of_def pos_step.stay_flat)
  qed
qed

lemma backtest_loop_refines_from:
  "backtest_loop f (bt_init c) rows = Inr st \<Longrightarrow>
     pos_reach (map snd rows) (trades st) (position_of st) \<and> 0 \<le> holdings st"
proof (induction rows arbitrary: st rule: rev_induct)
  case Nil
  then have "st = bt_init c" by simp
  then show ?case by (simp add: bt_init_def position_of_def pos_reach.start)
next
  case (snoc r rows)
  from snoc.prems obtain s where s: "backtest_loop f (bt_init c) rows = Inr s"
      and step: "backtest_step f s r = Inr st"
    by (auto simp: backtest_loop_snoc split: sum.splits)
  obtain p sg where r: "r = (p, sg)" by fastforce
  with step have step': "backtest_step f s (p, sg) = Inr st" by simp
  from snoc.IH [OF s] have reach: "pos_reach (map snd rows) (trades s) (position_of s)"
      and inv: "0 \<le> holdings s" by simp_all
  from backtest_step_refines [OF inv step']
  have ps: "pos_step (position_of s) sg (last (trades st)) (position_of st)" and "0 \<le> holdings st"
    by simp_all
  moreover from step' have "trades st = trades s @ [last (trades st)]"
    by (cases rule: backtest_step_Inr_cases) simp_all
  ultimately show ?case
    using pos_reach.step [OF reach ps] r by simp
qed

lemma backtest_strategy_reach:
  "backtest_strategy rows c f = Inr st \<Longrightarrow> pos_reach (map snd rows) (trades st) (position_of st)"
  using backtest_loop_refines_from by (auto simp: backtest_strategy_Inr)

subsection \<open>Properties of the refinement\<close>

text \<open>
  C6. Every successful run of \<open>backtest_strategy\<close> is a run of the abstract
  Flat/Holding machine from Flat, labelled by the signal column and the
  \<open>Trades\<close> column, ending in the position its share count shows.
\<close>

theorem backtest_refines_position_machine:
  assumes "backtest_strategy rows c f = Inr st"
  shows "pos_reach (map snd rows) (trades st) (position_of st)"
  using assms by (rule backtest_strategy_reach)

lemma refinement_example_run:
  "\<exists>st. backtest_strategy [(100, Hold), (100, Buy), (120::real, Sell)] 150 0 = Inr st"
  by (simp add: backtest_strategy_def bt_init_def backtest_step.simps record_day_def
      execute_buy_def execute_sell_def carry_position_def)

theorem backtest_refines_position_machine_witness:
  "\<exists>st. backtest_strategy [(100, Hold), (100, Buy), (120::real, Sell)] 150 0 = Inr st \<and>
     pos_reach [Hold, Buy, Sell] (trades st) (position_of st)"
proof -
  obtain st where r: "backtest_strategy [(100, Hold), (100, Buy), (120::real, Sell)] 150 0 = Inr st"
    using refinement_example_run by blast
  with backtest_refines_position_machine [OF r] show ?thesis by auto
qed

text \<open>
  C4. Trades alternate: the non-zero entries of \<open>Trades\<close> read buy, sell, buy,
  sell, \<dots>, and shares are held at the end exactly when their number is odd.
  No run sells without holding or buys twice in a row.
\<close>

theorem trades_alternate:
  assumes "backtest_strategy rows c f = Inr st"
  shows "alternating (nonzero_trades (trades st)) \<and>
         (0 < holdings st \<longleftrightarrow> odd (length (nonzero_trades (trades st))))"
proof -
  from assms have "pos_reach (map snd rows) (trades st) (position_of st)"
    by (rule backtest_strategy_reach)
  from pos_reach_alternating [OF this] show ?thesis by simp
qed

theorem trades_alternate_witness:
  "\<exists>st. backtest_strategy [(100, Hold), (100, Buy), (120::real, Sell)] 150 0 = Inr st \<and>
     alternating (nonzero_trades (trades st)) \<and>
     (0 < holdings st \<longleftrightarrow> odd (length (nonzero_trades (trades st))))"
proof -
  obtain st where r: "backtest_strategy [(100, Hold), (100, Buy), (120::real, Sell)] 150 0 = Inr st"
    using refinement_example_run by blast
  with trades_alternate [OF r] show ?thesis by auto
qed

end
