(* ===== verification/Metrics.thy ===== *)
theory Metrics
  imports Simulator_Refinement
begin

text \<open>
  The Performance Analyzer: \<open>calculate_performance_metrics\<close> of
  \<open>src/subcode/calculation.py\<close> (lines 129--195). Its input is the frame the
  simulator returns: the close column and the columns of the final
  \<open>bt_state\<close>. The metrics are kept as numbers; the f-string formatting of
  lines 178--193 is presentation and is not modelled. pandas' \<open>std()\<close> is the
  sample deviation (\<open>ddof=1\<close>), NaN (\<open>None\<close>) below two rows, and a NaN
  volatility makes the Sharpe ratio NaN too, since \<open>NaN != 0\<close> holds.
  \<open>iloc[-1]\<close> and \<open>iloc[0]\<close> on an empty frame raise \<open>IndexError\<close>.
  Arithmetic is exact: float64 rounding is not modelled (constant returns
  have a deviation of exactly 0 here and of order 1e-17 in float64, so the
  code's \<open>volatility != 0\<close> test can differ), and a division by a zero value
  or close gives 0 where pandas gives an infinity or NaN. The properties
  below hold for every input whose divisors are non-zero.
\<close>

datatype metrics_error = IndexError

text \<open>\<open>s.iloc[-1]\<close> and \<open>s.iloc[0]\<close>.\<close>

definition iloc_last :: "'a list \<Rightarrow> metrics_error + 'a" where
  "iloc_last xs = (if xs = [] then Inl IndexError else Inr (last xs))"

definition iloc_first :: "'a list \<Rightarrow> metrics_error + 'a" where
  "iloc_first xs = (if xs = [] then Inl IndexError else Inr (hd xs))"

text \<open>\<open>expanding(min_periods=1).max()\<close>: the running maximum, carried in one pass.\<close>

fun cummax_from :: "real \<Rightarrow> real list \<Rightarrow> real list" where
  "cummax_from m [] = []"
| "cummax_from m (x # xs) = max m x # cummax_from (max m x) xs"

definition cummax :: "real list \<Rightarrow> real list" where
  "cummax xs = (case xs of [] \<Rightarrow> [] | x # xs' \<Rightarrow> x # cummax_from x xs')"

text \<open>\<open>(values - cumulative_max) / cumulative_max\<close>, then \<open>.min()\<close>.\<close>

definition drawdown :: "real list \<Rightarrow> real list" where
  "drawdown vs = map2 (\<lambda>v m. (v - m) / m) vs (cummax vs)"

definition max_drawdown :: "real list \<Rightarrow> real" where
  "max_drawdown vs = min_list (drawdown vs)"

definition total_return :: "real \<Rightarrow> real \<Rightarrow> real" where
  "total_return final initial_capital = final / initial_capital - 1"

definition sample_std :: "real list \<Rightarrow> real option" where
  "sample_std xs =
     (if length xs < 2 then None
      else Some (sqrt (sum_list (map (\<lambda>x. (x - mean xs)\<^sup>2) xs) / real (length xs - 1))))"

definition annualized_volatility :: "real list \<Rightarrow> real option" where
  "annualized_volatility rets = map_option (\<lambda>s. s * sqrt 252) (sample_std rets)"

definition risk_free_rate :: real where
  "risk_free_rate = 1 / 100"

definition sharpe_ratio :: "real list \<Rightarrow> real option" where
  "sharpe_ratio rets =
     (case annualized_volatility rets of
        None \<Rightarrow> None
      | Some v \<Rightarrow> if v \<noteq> 0 then Some ((mean rets * 252 - risk_free_rate) / v) else Some 0)"

text \<open>\<open>data['Trades'].abs().sum()\<close>\<close>

definition number_of_trades :: "int list \<Rightarrow> int" where
  "number_of_trades ts = sum_list (map abs ts)"

text \<open>Lines 157--158: \<open>initial_capital * (Close / Close.iloc[0])\<close>.\<close>

definition bh_values :: "real \<Rightarrow> real \<Rightarrow> close_series \<Rightarrow> real list" where
  "bh_values initial_capital close0 closes = map (\<lambda>c. initial_capital * (c / close0)) closes"

text \<open>Line 169: \<open>Close.pct_change().fillna(0)\<close>.\<close>

definition pct_change :: "close_series \<Rightarrow> real list" where
  "pct_change closes = map2 (\<lambda>prev c. case prev of None \<Rightarrow> 0 | Some p \<Rightarrow> (c - p) / p) (shift1 closes) closes"

record performance =
  portfolio_value :: real
  strategy_total_return :: real
  strategy_max_drawdown :: real
  volatility :: "real option"
  strategy_sharpe :: "real option"
  fees_paid :: real
  trade_count :: int
  bh_portfolio_value :: real
  bh_total_return :: real
  bh_max_drawdown :: real
  bh_volatility :: "real option"
  bh_sharpe :: "real option"

definition calculate_performance_metrics ::
  "close_series \<Rightarrow> bt_state \<Rightarrow> real \<Rightarrow> metrics_error + performance" where
  "calculate_performance_metrics closes st initial_capital =
     (case iloc_last (portfolio_values st) of Inl e \<Rightarrow> Inl e | Inr final \<Rightarrow>
      case iloc_first closes of Inl e \<Rightarrow> Inl e | Inr close0 \<Rightarrow>
      let bh = bh_values initial_capital close0 closes;
          bh_rets = pct_change closes
      in case iloc_last bh of Inl e \<Rightarrow> Inl e | Inr bh_final \<Rightarrow>
      Inr \<lparr>portfolio_value = final,
           strategy_total_return = total_return final initial_capital,
           strategy_max_drawdown = max_drawdown (portfolio_values st),
           volatility = annualized_volatility (daily_returns st),
           strategy_sharpe = sharpe_ratio (daily_returns st),
           fees_paid = total_fees st,
           trade_count = number_of_trades (trades st),
           bh_portfolio_value = bh_final,
           bh_total_return = total_return bh_final initial_capital,
           bh_max_drawdown = max_drawdown bh,
           bh_volatility = annualized_volatility bh_rets,
           bh_sharpe = sharpe_ratio bh_rets\<rparr>)"


subsection \<open>Running maximum and drawdown\<close>

lemma cummax_from_nth:
  "i < length xs \<Longrightarrow> cummax_from m xs ! i = Max (insert m (set (take (Suc i) xs)))"
proof (induction xs arbitrary: m i)
  case Nil
  then show ?case by simp
next
  case (Cons x xs)
  show ?case
  proof (cases i)
    case 0
    then show ?thesis by simp
  next
    case (Suc j)
    with Cons.prems have j: "j < length xs" by simp
    then have ne: "set (take (Suc j) xs) \<noteq> {}" by (cases xs) auto
    have "cummax_from m (x # xs) ! i = Max (insert (max m x) (set (take (Suc j) xs)))"
      using Cons.IH [OF j] Suc by simp
    also have "\<dots> = Max (insert m (insert x (set (take (Suc j) xs))))"
      using ne by (simp add: max.assoc)
    finally show ?thesis using Suc by simp
  qed
qed

lemma cummax_nth:
  "i < length xs \<Longrightarrow> cummax xs ! i = Max (set (take (Suc i) xs))"
proof (cases xs)
  case Nil
  assume "i < length xs"
  with Nil show ?thesis by simp
next
  case (Cons x xs')
  assume i: "i < length xs"
  show ?thesis
  proof (cases i)
    case 0
    with Cons show ?thesis by (simp add: cummax_def)
  next
    case (Suc j)
    with i Cons have "j < length xs'" by simp
    with Suc Cons show ?thesis by (simp add: cummax_def cummax_from_nth)
  qed
qed

lemma length_cummax [simp]: "length (cummax xs) = length xs"
proof (cases xs)
  case Nil then show ?thesis by (simp add: cummax_def)
next
  case (Cons x xs')
  have "length (cummax_from m ys) = length ys" for m ys
    by (induction ys arbitrary: m) simp_all
  with Cons show ?thesis by (simp add: cummax_def)
qed

lemma drawdown_nth:
  "i < length vs \<Longrightarrow> drawdown vs ! i = (vs ! i - Max (set (take (Suc i) vs))) / Max (set (take (Suc i) vs))"
  by (simp add: drawdown_def cummax_nth)

lemma length_drawdown [simp]: "length (drawdown vs) = length vs"
  by (simp add: drawdown_def)

lemma drawdown_entry_bounds:
  assumes "i < length vs" and "\<forall>v\<in>set vs. 0 < v"
  shows "-1 < drawdown vs ! i \<and> drawdown vs ! i \<le> 0"
proof -
  let ?S = "set (take (Suc i) vs)" let ?m = "Max ?S"
  have fin: "finite ?S" and ne: "?S \<noteq> {}" using assms(1) by (auto simp: take_Suc_conv_app_nth)
  have vi: "vs ! i \<in> ?S" using assms(1) by (simp add: take_Suc_conv_app_nth)
  then have le: "vs ! i \<le> ?m" using fin by simp
  have pos: "0 < vs ! i" using assms by simp
  with le have m: "0 < ?m" by linarith
  have "(vs ! i - ?m) / ?m \<le> 0" using le m by (simp add: divide_nonpos_pos)
  moreover have "-1 < (vs ! i - ?m) / ?m" using pos m by (simp add: less_divide_eq)
  ultimately show ?thesis using assms(1) by (simp add: drawdown_nth)
qed

lemma drawdown_first:
  "vs \<noteq> [] \<Longrightarrow> drawdown vs ! 0 = 0"
  by (cases vs) (simp_all add: drawdown_nth)

text \<open>
  C19. For a non-empty curve of positive values (the strategy's portfolio
  values or the buy-and-hold values), the maximum drawdown lies in
  \<open>(-1, 0]\<close>.
\<close>

theorem max_drawdown_bounds:
  assumes "vs \<noteq> []" and "\<forall>v\<in>set vs. 0 < v"
  shows "-1 < max_drawdown vs \<and> max_drawdown vs \<le> 0"
proof -
  have ne: "drawdown vs \<noteq> []" using assms(1) length_drawdown [of vs] by (metis length_0_conv)
  have all: "\<forall>d\<in>set (drawdown vs). -1 < d"
    using drawdown_entry_bounds [OF _ assms(2)] by (auto simp: in_set_conv_nth)
  have zero: "0 \<in> set (drawdown vs)"
    using drawdown_first [OF assms(1)] ne by (metis length_greater_0_conv nth_mem)
  have "max_drawdown vs = Min (set (drawdown vs))"
    using ne by (simp add: max_drawdown_def min_list_Min)
  moreover have "Min (set (drawdown vs)) \<le> 0" using zero by simp
  moreover have "-1 < Min (set (drawdown vs))" using all ne by simp
  ultimately show ?thesis by simp
qed

lemma sorted_running_max:
  assumes "sorted vs" and "i < length vs"
  shows "Max (set (take (Suc i) vs)) = vs ! i"
proof (rule Max_eqI)
  show "finite (set (take (Suc i) vs))" by simp
  show "vs ! i \<in> set (take (Suc i) vs)" using assms(2) by (simp add: take_Suc_conv_app_nth)
  fix y assume "y \<in> set (take (Suc i) vs)"
  then obtain k where k: "k < length (take (Suc i) vs)" and y: "y = take (Suc i) vs ! k"
    by (auto simp: in_set_conv_nth)
  then have "k \<le> i" and "y = vs ! k" by simp_all
  with assms show "y \<le> vs ! i" by (simp add: sorted_nth_mono)
qed

lemma max_drawdown_sorted_zero:
  assumes "sorted vs" and "vs \<noteq> []"
  shows "max_drawdown vs = 0"
proof -
  have z: "drawdown vs ! i = 0" if "i < length vs" for i
    using that assms(1) by (simp add: drawdown_nth sorted_running_max)
  have "drawdown vs = replicate (length vs) 0"
    by (rule nth_equalityI) (simp_all add: z)
  moreover have "drawdown vs \<noteq> []" using assms(2) length_drawdown [of vs] by (metis length_0_conv)
  ultimately have "set (drawdown vs) = {0}" using assms(2) by (simp add: set_replicate_conv_if)
  moreover have "drawdown vs \<noteq> []" using assms(2) length_drawdown [of vs] by (metis length_0_conv)
  ultimately show ?thesis by (simp add: max_drawdown_def min_list_Min)
qed

text \<open>
  On a one-row frame the sample deviation is NaN, so the volatility and
  the Sharpe ratio are NaN, not the 0 the specification gives for a zero
  volatility.
\<close>

lemma sharpe_single_row_nan: "annualized_volatility [r] = None \<and> sharpe_ratio [r] = None"
  by (simp add: sharpe_ratio_def annualized_volatility_def sample_std_def)

lemma bh_values_nonempty [simp]: "bh_values c c0 closes = [] \<longleftrightarrow> closes = []"
  by (simp add: bh_values_def)

lemma calculate_performance_metrics_Inr:
  assumes "portfolio_values st \<noteq> []" and "closes \<noteq> []"
  shows "calculate_performance_metrics closes st c =
    Inr \<lparr>portfolio_value = last (portfolio_values st),
         strategy_total_return = total_return (last (portfolio_values st)) c,
         strategy_max_drawdown = max_drawdown (portfolio_values st),
         volatility = annualized_volatility (daily_returns st),
         strategy_sharpe = sharpe_ratio (daily_returns st),
         fees_paid = total_fees st,
         trade_count = number_of_trades (trades st),
         bh_portfolio_value = last (bh_values c (hd closes) closes),
         bh_total_return = total_return (last (bh_values c (hd closes) closes)) c,
         bh_max_drawdown = max_drawdown (bh_values c (hd closes) closes),
         bh_volatility = annualized_volatility (pct_change closes),
         bh_sharpe = sharpe_ratio (pct_change closes)\<rparr>"
  using assms by (simp add: calculate_performance_metrics_def iloc_last_def iloc_first_def Let_def)

lemma calculate_performance_metrics_Inr_nonempty:
  "calculate_performance_metrics closes st c = Inr m \<Longrightarrow> portfolio_values st \<noteq> [] \<and> closes \<noteq> []"
  by (cases "portfolio_values st = []"; cases "closes = []")
     (simp_all add: calculate_performance_metrics_def iloc_last_def iloc_first_def)

text \<open>
  C20. The buy-and-hold total return is the price return
  \<open>last close / first close - 1\<close>, whatever the capital.
\<close>

theorem bh_total_return_prices:
  assumes "calculate_performance_metrics closes st c = Inr m" and "hd closes \<noteq> 0" and "c \<noteq> 0"
  shows "bh_total_return m = last closes / hd closes - 1"
proof -
  from assms(1) have ne: "portfolio_values st \<noteq> []" "closes \<noteq> []"
    using calculate_performance_metrics_Inr_nonempty by auto
  then have "bh_total_return m = total_return (last (bh_values c (hd closes) closes)) c"
    using assms(1) calculate_performance_metrics_Inr [OF ne, of c] by auto
  also have "last (bh_values c (hd closes) closes) = c * (last closes / hd closes)"
    using ne(2) by (simp add: bh_values_def last_map)
  finally show ?thesis using assms(3) by (simp add: total_return_def)
qed

lemma pos_reach_trade_values: "pos_reach ss ts q \<Longrightarrow> set ts \<subseteq> {-1, 0, 1}"
  by (induction rule: pos_reach.induct) (auto dest: pos_step_trade)

lemma number_of_trades_unit:
  "set ts \<subseteq> {-1, 0, 1} \<Longrightarrow> number_of_trades ts = int (length (nonzero_trades ts))"
  by (induction ts) (auto simp: number_of_trades_def nonzero_trades_def)

text \<open>
  C21. The reported number of trades of a successful run counts its buys and
  sells (the non-zero trade markers) and is at most the number of rows.
\<close>

theorem trade_count_counts_trades:
  assumes "backtest_strategy rows c f = Inr st"
  shows "number_of_trades (trades st) = int (length (nonzero_trades (trades st))) \<and>
         number_of_trades (trades st) \<le> int (length rows)"
proof -
  have reach: "pos_reach (map snd rows) (trades st) (position_of st)"
    using assms by (rule backtest_strategy_reach)
  have eq: "number_of_trades (trades st) = int (length (nonzero_trades (trades st)))"
    using number_of_trades_unit [OF pos_reach_trade_values [OF reach]] .
  have "length (nonzero_trades (trades st)) \<le> length (trades st)"
    by (simp add: nonzero_trades_def)
  also have "length (trades st) = length rows" using pos_reach_length [OF reach] by simp
  finally show ?thesis using eq by simp
qed


theorem max_drawdown_bounds_witness:
  "-1 < max_drawdown [100, 120, 90] \<and> max_drawdown [100, 120, 90] \<le> 0"
  using max_drawdown_bounds [of "[100, 120, 90]"] by simp

theorem bh_total_return_prices_witness:
  "\<exists>m. calculate_performance_metrics [100, 120] ((bt_init 1000)\<lparr>portfolio_values := [1000, 1000]\<rparr>) 1000 = Inr m \<and>
       bh_total_return m = 1 / 5"
proof -
  let ?st = "(bt_init 1000)\<lparr>portfolio_values := [1000, 1000]\<rparr>"
  obtain m where r: "calculate_performance_metrics [100, 120] ?st 1000 = Inr m"
    using calculate_performance_metrics_Inr [of ?st "[100, 120]" 1000] by (simp add: bt_init_def)
  have "bh_total_return m = 120 / 100 - 1"
    using bh_total_return_prices [OF r] by simp
  with r show ?thesis by simp
qed

theorem trade_count_counts_trades_witness:
  "\<exists>st. backtest_strategy [(100, Hold), (100, Buy), (120::real, Sell)] 150 0 = Inr st \<and>
     number_of_trades (trades st) = int (length (nonzero_trades (trades st))) \<and>
     number_of_trades (trades st) \<le> 3"
proof -
  obtain st where r: "backtest_strategy [(100, Hold), (100, Buy), (120::real, Sell)] 150 0 = Inr st"
    using refinement_example_run by blast
  with trade_count_counts_trades [OF r] show ?thesis by auto
qed

end
