(* ===== verification/App.thy ===== *)
theory App
  imports Metrics
begin

text \<open>
  The application layer: \<open>BacktestApp.run_backtest\<close> of \<open>src/subcode/app.py\<close>
  (lines 165--210) with the configuration constants of
  \<open>src/subcode/configuration.py\<close>. The entry widgets' text is taken as
  already parsed by \<open>float(...)\<close> (a parse failure is one more
  \<open>ValueError\<close> shown in the same dialog); the company is the dropdown's
  string. The market-data download (\<open>get_historical_data\<close>, yfinance) is an
  external collaborator: a function from ticker and dates to the cleaned close
  column. The outcome of one button press is a value of \<open>outcome\<close>:
  \<^item> \<open>Rejected\<close>: a \<open>ValueError\<close> of the validation, shown in an error dialog;
  \<^item> \<open>NoData\<close>: the download returned an empty frame;
  \<^item> \<open>Crashed\<close>: an exception the handler does not catch (the \<open>KeyError\<close> of
    the ticker lookup, the simulator's and the analyzer's errors);
  \<^item> \<open>Report\<close>: the metrics and the simulated frame handed to the display.
\<close>

text \<open>\<open>COMPANIES\<close>, \<open>START_DATE\<close> and \<open>END_DATE\<close> of \<open>configuration.py\<close>.\<close>

definition COMPANIES :: "(string \<times> string) list" where
  "COMPANIES =
     [(''Apple Inc. (AAPL)'', ''AAPL''),
      (''Microsoft Corporation (MSFT)'', ''MSFT''),
      (''Amazon.com, Inc. (AMZN)'', ''AMZN''),
      (''Alphabet Inc. Class A (GOOGL)'', ''GOOGL''),
      (''Alphabet Inc. Class C (GOOG)'', ''GOOG''),
      (''Meta Platforms, Inc. (META)'', ''META''),
      (''Tesla, Inc. (TSLA)'', ''TSLA''),
      (''NVIDIA Corporation (NVDA)'', ''NVDA''),
      (''JPMorgan Chase & Co. (JPM)'', ''JPM'')]"

definition START_DATE :: string where
  "START_DATE = ''2020-01-01''"

definition END_DATE :: string where
  "END_DATE = ''2023-12-31''"

datatype input_error =
    CapitalNotPositive
  | FeeNegative
  | OverboughtOutOfRange
  | OversoldOutOfRange
  | OversoldNotBelowOverbought

record config =
  initial_capital :: real
  fee_percentage :: real
  rsi_overbought :: real
  rsi_oversold :: real

text \<open>Lines 169--186: the checks in the code's order; the fee is entered in percent.\<close>

definition validate_inputs :: "real \<Rightarrow> real \<Rightarrow> real \<Rightarrow> real \<Rightarrow> input_error + config" where
  "validate_inputs capital fee_entry overbought oversold =
     (if capital \<le> 0 then Inl CapitalNotPositive
      else let fee = fee_entry / 100 in
      if fee < 0 then Inl FeeNegative
      else if \<not> (0 < overbought \<and> overbought < 100) then Inl OverboughtOutOfRange
      else if \<not> (0 < oversold \<and> oversold < 100) then Inl OversoldOutOfRange
      else if oversold \<ge> overbought then Inl OversoldNotBelowOverbought
      else Inr \<lparr>initial_capital = capital, fee_percentage = fee,
                rsi_overbought = overbought, rsi_oversold = oversold\<rparr>)"

datatype run_error = KeyError | SimulationError bt_error | MetricsError metrics_error

datatype outcome =
    Rejected input_error
  | NoData
  | Crashed run_error
  | Report performance bt_state

text \<open>
  Lines 193--207: the part of the handler after validation. The frame is
  downloaded, an empty frame ends the run, and the four stages run in order:
  \<open>calculate_rsi\<close> with its default period, \<open>generate_signals\<close>,
  \<open>backtest_strategy\<close> on the rows (close, signal), and
  \<open>calculate_performance_metrics\<close>. The simulator's and the analyzer's
  exceptions are not caught.
\<close>

definition run_pipeline ::
  "(string \<Rightarrow> string \<Rightarrow> string \<Rightarrow> close_series) \<Rightarrow> string \<Rightarrow> config \<Rightarrow> outcome" where
  "run_pipeline get_historical_data ticker cfg =
     (let data = get_historical_data ticker START_DATE END_DATE
      in if data = [] then NoData
         else
           (let rsi = calculate_rsi default_period data;
                signals = generate_signals (rsi_overbought cfg) (rsi_oversold cfg) rsi
            in case backtest_strategy (zip data signals) (initial_capital cfg) (fee_percentage cfg) of
                 Inl e \<Rightarrow> Crashed (SimulationError e)
               | Inr st \<Rightarrow>
                 (case calculate_performance_metrics data st (initial_capital cfg) of
                    Inl e \<Rightarrow> Crashed (MetricsError e)
                  | Inr m \<Rightarrow> Report m st)))"

text \<open>
  Lines 165--190. The ticker lookup comes first and its \<open>KeyError\<close> is not a
  \<open>ValueError\<close>, so the \<open>except\<close> clause does not catch it; a validation
  error ends the run with the error dialog.
\<close>

definition run_backtest ::
  "(string \<Rightarrow> string \<Rightarrow> string \<Rightarrow> close_series) \<Rightarrow> string \<Rightarrow> real \<Rightarrow> real \<Rightarrow> real \<Rightarrow> real \<Rightarrow> outcome" where
  "run_backtest get_historical_data company_name capital fee_entry overbought oversold =
     (case map_of COMPANIES company_name of
        None \<Rightarrow> Crashed KeyError
      | Some ticker \<Rightarrow>
        (case validate_inputs capital fee_entry overbought oversold of
           Inl e \<Rightarrow> Rejected e
         | Inr cfg \<Rightarrow> run_pipeline get_historical_data ticker cfg))"


subsection \<open>Validation and the outcomes of a run\<close>

lemma validate_inputs_Inr:
  "validate_inputs c fee ob os = Inr cfg \<longleftrightarrow>
     0 < c \<and> 0 \<le> fee \<and> 0 < os \<and> os < ob \<and> ob < 100 \<and>
     cfg = \<lparr>initial_capital = c, fee_percentage = fee / 100, rsi_overbought = ob, rsi_oversold = os\<rparr>"
  by (auto simp: validate_inputs_def Let_def)

lemma companies_lookup:
  "name \<in> set (map fst COMPANIES) \<Longrightarrow> \<exists>t. map_of COMPANIES name = Some t"
  by (cases "map_of COMPANIES name") (simp_all add: map_of_eq_None_iff)

subsection \<open>A run over rows that all hold\<close>

lemma backtest_loop_hold_flat:
  assumes "holdings st = 0"
  shows "\<exists>st'. backtest_loop f st (replicate n (p, Hold)) = Inr st' \<and>
     cash st' = cash st \<and> holdings st' = 0 \<and> total_fees st' = total_fees st \<and>
     portfolio_values st' = portfolio_values st @ replicate n (cash st) \<and>
     trades st' = trades st @ replicate n 0 \<and>
     length (positions st') = length (positions st) + n"
  using assms
proof (induction n arbitrary: st)
  case 0
  then show ?case by simp
next
  case (Suc n)
  let ?s1 = "record_day p 0 (carry_position st)"
  have step: "backtest_step f st (p, Hold) = Inr ?s1" by (simp add: backtest_step.simps)
  have h1: "holdings ?s1 = 0" using Suc.prems by simp
  from Suc.IH [OF h1] obtain st' where
    r: "backtest_loop f ?s1 (replicate n (p, Hold)) = Inr st'" and
    props: "cash st' = cash ?s1" "holdings st' = 0" "total_fees st' = total_fees ?s1"
      "portfolio_values st' = portfolio_values ?s1 @ replicate n (cash ?s1)"
      "trades st' = trades ?s1 @ replicate n 0"
      "length (positions st') = length (positions ?s1) + n" by blast
  have "backtest_loop f st (replicate (Suc n) (p, Hold)) = Inr st'" using step r by simp
  moreover have "replicate n (cash st) @ [cash st] = cash st # replicate n (cash st)"
    by (simp add: replicate_append_same)
  moreover have "replicate n (0::int) @ [0] = 0 # replicate n 0"
    by (simp add: replicate_append_same)
  ultimately show ?case using props Suc.prems by auto
qed


lemma run_pipeline_Report:
  assumes "run_pipeline g t cfg = Report m st"
  shows "g t START_DATE END_DATE \<noteq> [] \<and>
    backtest_strategy (zip (g t START_DATE END_DATE)
      (generate_signals (rsi_overbought cfg) (rsi_oversold cfg) (calculate_rsi default_period (g t START_DATE END_DATE))))
      (initial_capital cfg) (fee_percentage cfg) = Inr st \<and>
    calculate_performance_metrics (g t START_DATE END_DATE) st (initial_capital cfg) = Inr m"
  using assms by (auto simp: run_pipeline_def Let_def split: if_splits sum.splits)

lemma run_pipeline_outcomes:
  "run_pipeline g t cfg \<noteq> Crashed KeyError \<and> run_pipeline g t cfg \<noteq> Rejected e"
  by (auto simp: run_pipeline_def Let_def split: sum.splits)

lemma run_pipeline_flat:
  assumes "g t START_DATE END_DATE = replicate n p" and "0 < n" and "initial_capital cfg \<noteq> 0"
  shows "\<exists>m st. run_pipeline g t cfg = Report m st \<and>
     trades st = replicate n 0 \<and> portfolio_values st = replicate n (initial_capital cfg) \<and>
     portfolio_value m = initial_capital cfg \<and> strategy_total_return m = 0 \<and>
     strategy_max_drawdown m = 0 \<and> fees_paid m = 0 \<and> trade_count m = 0"
proof -
  let ?c = "initial_capital cfg" and ?f = "fee_percentage cfg"
  have sig: "zip (replicate n p) (generate_signals ob os (calculate_rsi default_period (replicate n p)))
      = replicate n (p, Hold)" for ob os
    by (simp add: calculate_rsi_replicate generate_signals_replicate zip_replicate)
  obtain st where
    loop: "backtest_loop ?f (bt_init ?c) (replicate n (p, Hold)) = Inr st" and
    props: "total_fees st = 0" "portfolio_values st = replicate n ?c" "trades st = replicate n 0"
      "length (positions st) = n"
    using backtest_loop_hold_flat [of "bt_init ?c" ?f n p] by (auto simp: bt_init_def)
  have bs: "backtest_strategy (replicate n (p, Hold)) ?c ?f = Inr st"
    using loop props by (simp add: backtest_strategy_Inr)
  have ne: "portfolio_values st \<noteq> []" "replicate n p \<noteq> []" using props assms(2) by simp_all
  obtain m where m: "calculate_performance_metrics (replicate n p) st ?c = Inr m"
    and pv: "portfolio_value m = last (portfolio_values st)"
    and tr: "strategy_total_return m = total_return (last (portfolio_values st)) ?c"
    and md: "strategy_max_drawdown m = max_drawdown (portfolio_values st)"
    and fp: "fees_paid m = total_fees st" and tc: "trade_count m = number_of_trades (trades st)"
    using calculate_performance_metrics_Inr [OF ne, of ?c] by simp
  have run: "run_pipeline g t cfg = Report m st"
    using assms(1) ne(2) by (simp add: run_pipeline_def Let_def sig bs m)
  have "max_drawdown (replicate n ?c) = 0"
    by (rule max_drawdown_sorted_zero) (simp_all add: assms(2) sorted_replicate)
  moreover have "number_of_trades (replicate n 0) = 0" by (simp add: number_of_trades_def sum_list_replicate)
  moreover have "last (replicate n ?c) = ?c" using assms(2) by simp
  ultimately show ?thesis using run props pv tr md fp tc assms(3) by (auto simp: total_return_def)
qed

end
