(* ===== verification/Float_Inputs.thy ===== *)
theory Float_Inputs
  imports App
begin

text \<open>
  The validation block of \<open>BacktestApp.run_backtest\<close> (\<open>src/subcode/app.py\<close>,
  lines 169--186) over the values \<open>float(...)\<close> can return, which include
  \<open>nan\<close>, \<open>inf\<close> and \<open>-inf\<close> (the texts "nan", "inf", "1e999"). These are
  the values \<open>fval\<close> of the prelude; a comparison with NaN is false, as in
  Python. On finite values the block is \<open>validate_inputs\<close>.
\<close>

text \<open>Python's \<open><\<close> on floats.\<close>

fun float_lt :: "fval \<Rightarrow> fval \<Rightarrow> bool" where
  "float_lt (Fin a) (Fin b) = (a < b)"
| "float_lt NaN _ = False"
| "float_lt _ NaN = False"
| "float_lt PInf _ = False"
| "float_lt _ PInf = True"
| "float_lt NInf NInf = False"
| "float_lt NInf _ = True"
| "float_lt _ NInf = False"

text \<open>Python's \<open><=\<close> on floats.\<close>

definition float_le :: "fval \<Rightarrow> fval \<Rightarrow> bool" where
  "float_le x y = (float_lt x y \<or> (x = y \<and> x \<noteq> NaN))"

text \<open>Line 173: \<open>float(...) / 100\<close>.\<close>

fun float_div100 :: "fval \<Rightarrow> fval" where
  "float_div100 (Fin a) = Fin (a / 100)"
| "float_div100 v = v"

text \<open>Lines 169--186, with the parsed capital, fee, overbought and oversold values.\<close>

definition validate_floats ::
  "fval \<Rightarrow> fval \<Rightarrow> fval \<Rightarrow> fval \<Rightarrow> input_error + (fval \<times> fval \<times> fval \<times> fval)" where
  "validate_floats capital fee_entry overbought oversold =
     (if float_le capital (Fin 0) then Inl CapitalNotPositive
      else let fee = float_div100 fee_entry in
      if float_lt fee (Fin 0) then Inl FeeNegative
      else if \<not> (float_lt (Fin 0) overbought \<and> float_lt overbought (Fin 100)) then Inl OverboughtOutOfRange
      else if \<not> (float_lt (Fin 0) oversold \<and> float_lt oversold (Fin 100)) then Inl OversoldOutOfRange
      else if float_le overbought oversold then Inl OversoldNotBelowOverbought
      else Inr (capital, fee, overbought, oversold))"

lemma float_lt_Fin_iff:
  "float_lt (Fin 0) v \<and> float_lt v (Fin 100) \<longleftrightarrow> (\<exists>a. v = Fin a \<and> 0 < a \<and> a < 100)"
  by (cases v) auto

text \<open>
  On finite values the float-level validation is \<open>validate_inputs\<close>:
  the same error in the same order, or the same accepted configuration.
\<close>

lemma validate_floats_finite:
  "validate_floats (Fin c) (Fin fee) (Fin ob) (Fin os) =
     (case validate_inputs c fee ob os of
        Inl e \<Rightarrow> Inl e
      | Inr cfg \<Rightarrow> Inr (Fin (initial_capital cfg), Fin (fee_percentage cfg),
                       Fin (rsi_overbought cfg), Fin (rsi_oversold cfg)))"
  by (simp add: validate_floats_def validate_inputs_def float_le_def Let_def)

lemma validate_floats_thresholds_finite:
  "validate_floats c fee ob os = Inr (c', fee', ob', os') \<Longrightarrow>
     \<exists>a b. ob = Fin a \<and> os = Fin b \<and> 0 < b \<and> b < a \<and> a < 100"
  by (auto simp: validate_floats_def Let_def float_le_def float_lt_Fin_iff split: if_splits)

text \<open>
  C29. The capital and the fee are only compared with 0, and every
  comparison with NaN is false. So a capital of \<open>nan\<close> or \<open>inf\<close> passes the
  block exactly when a capital of 1 would, with the same fee and thresholds,
  and a fee of \<open>nan\<close> passes exactly when a fee of 0 would; the non-finite
  value is handed on to the simulator unchanged. A fee of \<open>-inf\<close> is
  rejected whenever the capital passes.
\<close>

theorem validate_floats_nonfinite:
  assumes "c = NaN \<or> c = PInf"
  shows "validate_floats c fee ob os =
           (case validate_floats (Fin 1) fee ob os of Inl e \<Rightarrow> Inl e | Inr v \<Rightarrow> Inr (c, snd v)) \<and>
         validate_floats cap NaN ob os =
           (case validate_floats cap (Fin 0) ob os of
              Inl e \<Rightarrow> Inl e | Inr v \<Rightarrow> Inr (fst v, NaN, snd (snd v))) \<and>
         validate_floats c NInf ob os = Inl FeeNegative"
  using assms by (auto simp: validate_floats_def float_le_def Let_def)

theorem validate_floats_nonfinite_witness:
  "validate_floats NaN (Fin (1/10)) (Fin 70) (Fin 30) = Inr (NaN, Fin (1/1000), Fin 70, Fin 30) \<and>
   validate_floats (Fin 10000) NaN (Fin 70) (Fin 30) = Inr (Fin 10000, NaN, Fin 70, Fin 30) \<and>
   validate_floats NaN NInf (Fin 70) (Fin 30) = Inl FeeNegative"
  using validate_floats_nonfinite [of NaN "Fin (1/10)" "Fin 70" "Fin 30" "Fin 10000"]
  by (simp add: validate_floats_def float_le_def)

end
