(* ===== verification/Display.thy ===== *)
theory Display
  imports Metrics
begin

text \<open>
  The metrics table of \<open>BacktestApp.display_metrics\<close> (\<open>src/subcode/app.py\<close>,
  lines 215--249) over the dictionary that \<open>calculate_performance_metrics\<close>
  returns (\<open>src/subcode/calculation.py\<close>, lines 178--193). A dictionary value
  is kept as the number it formats, tagged with its format; the string
  formatting itself is not modelled. The table row of a label looks up the
  key derived from the label text for the strategy column and the key with
  prefix \<open>bh_\<close> for the buy-and-hold column; \<open>metrics.get(key, "")\<close> gives
  \<open>None\<close> for a missing key, shown as an empty cell.
\<close>

datatype metric_value =
    Dollars real
  | Percent real
  | PercentOpt "real option"
  | DecimalOpt "real option"
  | Count int
  | NotApplicable

text \<open>Lines 178--193 of \<open>calculation.py\<close>, in the dictionary's order.\<close>

definition metrics_dict :: "performance \<Rightarrow> (string \<times> metric_value) list" where
  "metrics_dict m =
     [(''portfolio_value'', Dollars (portfolio_value m)),
      (''total_return'', Percent (strategy_total_return m)),
      (''max_drawdown'', Percent (strategy_max_drawdown m)),
      (''volatility'', PercentOpt (volatility m)),
      (''sharpe_ratio'', DecimalOpt (strategy_sharpe m)),
      (''fees_paid'', Dollars (fees_paid m)),
      (''number_of_trades'', Count (trade_count m)),
      (''bh_portfolio_value'', Dollars (bh_portfolio_value m)),
      (''bh_total_return'', Percent (bh_total_return m)),
      (''bh_max_drawdown'', Percent (bh_max_drawdown m)),
      (''bh_volatility'', PercentOpt (bh_volatility m)),
      (''bh_sharpe_ratio'', DecimalOpt (bh_sharpe m)),
      (''bh_number_of_trades'', NotApplicable),
      (''bh_fees_paid'', NotApplicable)]"

text \<open>Line 225 of \<open>app.py\<close>: the header row of the table.\<close>

definition metrics_headers :: "string list" where
  "metrics_headers = ['''', ''RSI-Strategy'', ''Buy-n-Hold'']"

text \<open>Lines 226--229 of \<open>app.py\<close>.\<close>

definition metrics_labels :: "string list" where
  "metrics_labels =
     [''Portfolio Value'', ''Total Return'', ''Max. Drawdown'',
      ''Volatility'', ''Sharpe Ratio'', ''Fees Paid'', ''Number of Trades'']"

text \<open>\<open>str.lower\<close> on the ASCII letters the labels use.\<close>

definition ascii_lower :: "char \<Rightarrow> char" where
  "ascii_lower c =
     (case map_of (zip ''ABCDEFGHIJKLMNOPQRSTUVWXYZ'' ''abcdefghijklmnopqrstuvwxyz'') c of
        None \<Rightarrow> c
      | Some d \<Rightarrow> d)"

definition str_lower :: "string \<Rightarrow> string" where
  "str_lower s = map ascii_lower s"

definition replace_char :: "char \<Rightarrow> char \<Rightarrow> string \<Rightarrow> string" where
  "replace_char a b s = map (\<lambda>c. if c = a then b else c) s"

definition remove_char :: "char \<Rightarrow> string \<Rightarrow> string" where
  "remove_char a s = filter (\<lambda>c. c \<noteq> a) s"

text \<open>Line 241: \<open>metric.lower().replace(" ", "_").replace(".", "")\<close>.\<close>

definition metric_key :: "string \<Rightarrow> string" where
  "metric_key metric = remove_char CHR ''.'' (replace_char CHR '' '' CHR ''_'' (str_lower metric))"

text \<open>Lines 237--249: one row per label, the label text \<open>metric + ":"\<close> and its two cells.\<close>

definition display_row :: "performance \<Rightarrow> string \<Rightarrow> string \<times> metric_value option \<times> metric_value option" where
  "display_row m metric =
     (let key = metric_key metric
      in (metric @ '':'', map_of (metrics_dict m) key, map_of (metrics_dict m) (''bh_'' @ key)))"

definition display_metrics :: "performance \<Rightarrow> (string \<times> metric_value option \<times> metric_value option) list" where
  "display_metrics m = map (display_row m) metrics_labels"

lemma display_metrics_trades_row:
  "(''Number of Trades:'', Some (Count (trade_count m)), Some NotApplicable) \<in> set (display_metrics m)"
  by (simp add: display_metrics_def display_row_def metrics_labels_def metric_key_def remove_char_def
      replace_char_def str_lower_def ascii_lower_def metrics_dict_def)

text \<open>
  C22. The key derived from each label of the table is a key of the metrics
  dictionary, with and without the \<open>bh_\<close> prefix, so no cell is left
  empty: each row shows the strategy's metric and the buy-and-hold one,
  the two buy-and-hold cells of fees and trade count reading N/A.
\<close>

theorem display_metrics_table:
  "display_metrics m =
     [(''Portfolio Value:'', Some (Dollars (portfolio_value m)), Some (Dollars (bh_portfolio_value m))),
      (''Total Return:'', Some (Percent (strategy_total_return m)), Some (Percent (bh_total_return m))),
      (''Max. Drawdown:'', Some (Percent (strategy_max_drawdown m)), Some (Percent (bh_max_drawdown m))),
      (''Volatility:'', Some (PercentOpt (volatility m)), Some (PercentOpt (bh_volatility m))),
      (''Sharpe Ratio:'', Some (DecimalOpt (strategy_sharpe m)), Some (DecimalOpt (bh_sharpe m))),
      (''Fees Paid:'', Some (Dollars (fees_paid m)), Some NotApplicable),
      (''Number of Trades:'', Some (Count (trade_count m)), Some NotApplicable)]"
  by (simp add: display_metrics_def display_row_def metrics_labels_def metric_key_def remove_char_def
      replace_char_def str_lower_def ascii_lower_def metrics_dict_def)

end
