(* ===== verification/Plot.thy ===== *)
theory Plot
  imports Metrics
begin

text \<open>
  The data content of \<open>BacktestApp.plot_results\<close> (\<open>src/subcode/app.py\<close>,
  lines 254--291): three panels over the frame's rows, the price line with
  the buy and sell markers, the RSI line with the two threshold lines, and
  the strategy and buy-and-hold value curves. A row's date index is its
  position in the frame. Colours, marker shapes, fonts and the layout of the
  figure are not modelled.
\<close>

record plot =
  price_title :: string
  price_line :: "real list"
  buy_markers :: "(nat \<times> real) list"
  sell_markers :: "(nat \<times> real) list"
  rsi_line :: "real list"
  overbought_line :: real
  oversold_line :: real
  strategy_line :: "real list"
  bh_line :: "real list"

text \<open>Line 261: \<open>data[data['Trades'] != 0]\<close>, the rows as (index, close, trade).\<close>

definition frame_trades :: "real list \<Rightarrow> int list \<Rightarrow> (nat \<times> real \<times> int) list" where
  "frame_trades closes ts = filter (\<lambda>(i, c, t). t \<noteq> 0) (zip [0..<length closes] (zip closes ts))"

text \<open>Lines 262--263: the rows of those whose trade equals \<open>code\<close>, plotted at their close.\<close>

definition trade_markers :: "int \<Rightarrow> (nat \<times> real \<times> int) list \<Rightarrow> (nat \<times> real) list" where
  "trade_markers code rows = map (\<lambda>(i, c, t). (i, c)) (filter (\<lambda>(i, c, t). t = code) rows)"

definition plot_results ::
  "real list \<Rightarrow> indicator_series \<Rightarrow> bt_state \<Rightarrow> real list \<Rightarrow> string \<Rightarrow> real \<Rightarrow> real \<Rightarrow> plot" where
  "plot_results closes rsi st bh company_name rsi_overbought rsi_oversold =
     (let trades_rows = frame_trades closes (trades st)
      in \<lparr>price_title = company_name @ '' Price with Buy/Sell Signals'',
          price_line = closes,
          buy_markers = trade_markers 1 trades_rows,
          sell_markers = trade_markers (-1) trades_rows,
          rsi_line = rsi,
          overbought_line = rsi_overbought,
          oversold_line = rsi_oversold,
          strategy_line = portfolio_values st,
          bh_line = bh\<rparr>)"


subsection \<open>Markers\<close>

lemma frame_trades_codes:
  "length closes = length ts \<Longrightarrow> map (\<lambda>(i, c, t). t) (frame_trades closes ts) = nonzero_trades ts"
proof -
  assume len: "length closes = length ts"
  have "map (\<lambda>(i, c, t). t) (filter (\<lambda>(i, c, t). t \<noteq> 0) (zip is (zip closes ts))) = nonzero_trades ts"
    if "length is = length ts" "length closes = length ts" for "is" :: "nat list"
    using that
  proof (induction ts arbitrary: "is" closes)
    case Nil then show ?case by (simp add: nonzero_trades_def)
  next
    case (Cons t ts)
    then obtain i is' c cs where "is = i # is'" "closes = c # cs"
      by (cases "is"; cases closes) auto
    with Cons show ?case by (auto simp: nonzero_trades_def)
  qed
  with len show ?thesis by (simp add: frame_trades_def)
qed

lemma length_trade_markers:
  "length (trade_markers code rows) = length (filter (\<lambda>t. t = code) (map (\<lambda>(i, c, t). t) rows))"
  by (induction rows) (auto simp: trade_markers_def)

lemma alternating_counts:
  "alternating xs \<Longrightarrow>
     length (filter (\<lambda>t. t = 1) xs) = (length xs + 1) div 2 \<and>
     length (filter (\<lambda>t. t = -1) xs) = length xs div 2"
proof (induction xs rule: rev_induct)
  case Nil then show ?case by simp
next
  case (snoc x xs)
  then have "alternating xs" and x: "x = (if even (length xs) then 1 else -1)"
    by (simp_all add: alternating_snoc)
  with snoc.IH show ?case by auto
qed

lemma in_trade_markers:
  assumes "length closes = length ts"
  shows "(i, c) \<in> set (trade_markers code (frame_trades closes ts)) \<longleftrightarrow>
           i < length ts \<and> code \<noteq> 0 \<and> ts ! i = code \<and> c = closes ! i"
proof
  assume "(i, c) \<in> set (trade_markers code (frame_trades closes ts))"
  then show "i < length ts \<and> code \<noteq> 0 \<and> ts ! i = code \<and> c = closes ! i"
    using assms by (auto simp: trade_markers_def frame_trades_def set_zip)
next
  assume r: "i < length ts \<and> code \<noteq> 0 \<and> ts ! i = code \<and> c = closes ! i"
  then have "(i, c, code) \<in> set (zip [0..<length closes] (zip closes ts))"
    using assms unfolding set_zip by (intro CollectI exI [of _ i]) simp
  with r show "(i, c) \<in> set (trade_markers code (frame_trades closes ts))"
    by (force simp: trade_markers_def frame_trades_def)
qed

lemma run_trades_shape:
  assumes "backtest_strategy rows c f = Inr st"
  shows "length (trades st) = length rows \<and> alternating (nonzero_trades (trades st)) \<and>
         set (trades st) \<subseteq> {-1, 0, 1}"
proof -
  have reach: "pos_reach (map snd rows) (trades st) (position_of st)"
    using assms by (rule backtest_strategy_reach)
  show ?thesis
    using pos_reach_length [OF reach] pos_reach_alternating [OF reach] pos_reach_trade_values [OF reach]
    by simp
qed


lemma plot_marker_lengths:
  assumes "backtest_strategy rows c f = Inr st"
    and "p = plot_results (map fst rows) rsi st bh name ob os"
  shows "length (buy_markers p) = (length (nonzero_trades (trades st)) + 1) div 2 \<and>
         length (sell_markers p) = length (nonzero_trades (trades st)) div 2 \<and>
         number_of_trades (trades st) = int (length (nonzero_trades (trades st)))"
proof -
  from run_trades_shape [OF assms(1)] have len: "length (map fst rows) = length (trades st)"
    and alt: "alternating (nonzero_trades (trades st))" and vals: "set (trades st) \<subseteq> {-1, 0, 1}"
    by simp_all
  have codes: "map (\<lambda>(i, c, t). t) (frame_trades (map fst rows) (trades st)) = nonzero_trades (trades st)"
    using frame_trades_codes [OF len] .
  show ?thesis
    using assms(2) alternating_counts [OF alt] codes number_of_trades_unit [OF vals]
    by (simp add: plot_results_def Let_def length_trade_markers)
qed

subsection \<open>Properties of the plot\<close>

text \<open>
  C23. The price panel of a successful run agrees with the metrics table:
  its buy and sell markers together number the reported trade count, and
  since trades alternate from a buy, there are as many sell markers as buy
  markers or one fewer.
\<close>

theorem plot_markers_count:
  assumes "backtest_strategy rows c f = Inr st"
    and "p = plot_results (map fst rows) rsi st bh name ob os"
  shows "length (sell_markers p) \<le> length (buy_markers p) \<and>
         length (buy_markers p) \<le> length (sell_markers p) + 1 \<and>
         int (length (buy_markers p) + length (sell_markers p)) = number_of_trades (trades st)"
proof -
  have "n div 2 \<le> (n + 1) div 2 \<and> (n + 1) div 2 \<le> n div 2 + 1 \<and> (n + 1) div 2 + n div 2 = n"
    for n :: nat by presburger
  with plot_marker_lengths [OF assms] show ?thesis by metis
qed

theorem plot_markers_count_witness:
  "\<exists>st. backtest_strategy [(100, Hold), (100, Buy), (120::real, Sell)] 150 0 = Inr st \<and>
     length (sell_markers (plot_results [100, 100, 120] [50, 50, 100] st [150, 150, 180] ''JPM'' 70 30)) \<le>
       length (buy_markers (plot_results [100, 100, 120] [50, 50, 100] st [150, 150, 180] ''JPM'' 70 30)) \<and>
     length (buy_markers (plot_results [100, 100, 120] [50, 50, 100] st [150, 150, 180] ''JPM'' 70 30)) \<le>
       length (sell_markers (plot_results [100, 100, 120] [50, 50, 100] st [150, 150, 180] ''JPM'' 70 30)) + 1 \<and>
     int (length (buy_markers (plot_results [100, 100, 120] [50, 50, 100] st [150, 150, 180] ''JPM'' 70 30)) +
          length (sell_markers (plot_results [100, 100, 120] [50, 50, 100] st [150, 150, 180] ''JPM'' 70 30))) =
       number_of_trades (trades st)"
proof -
  obtain st where r: "backtest_strategy [(100, Hold), (100, Buy), (120::real, Sell)] 150 0 = Inr st"
    using refinement_example_run by blast
  have "map fst [(100, Hold), (100, Buy), (120::real, Sell)] = [100, 100, 120]" by simp
  with plot_markers_count [OF r, of "plot_results [100, 100, 120] [50, 50, 100] st [150, 150, 180] ''JPM'' 70 30"] r
  show ?thesis by auto
qed

text \<open>
  C24. Each marker sits on a trade: a buy marker is drawn at row \<open>i\<close> and
  height \<open>x\<close> exactly when the run bought at row \<open>i\<close> and \<open>x\<close> is that row's
  close, and likewise for sell markers.
\<close>

theorem plot_markers_at_trades:
  assumes "backtest_strategy rows c f = Inr st"
    and "p = plot_results (map fst rows) rsi st bh name ob os"
  shows "((i, x) \<in> set (buy_markers p) \<longleftrightarrow> i < length rows \<and> trades st ! i = 1 \<and> x = fst (rows ! i)) \<and>
         ((i, x) \<in> set (sell_markers p) \<longleftrightarrow> i < length rows \<and> trades st ! i = -1 \<and> x = fst (rows ! i))"
proof -
  from run_trades_shape [OF assms(1)] have len: "length (map fst rows) = length (trades st)"
    and lr: "length (trades st) = length rows" by simp_all
  show ?thesis
    using assms(2) in_trade_markers [OF len, of i x 1] in_trade_markers [OF len, of i x "-1"] lr
    by (auto simp: plot_results_def Let_def)
qed

theorem plot_markers_at_trades_witness:
  "\<exists>st. backtest_strategy [(100, Hold), (100, Buy), (120::real, Sell)] 150 0 = Inr st \<and>
     ((1, 100) \<in> set (buy_markers (plot_results [100, 100, 120] [50, 50, 100] st [150, 150, 180] ''JPM'' 70 30)) \<longleftrightarrow>
        1 < length [(100, Hold), (100, Buy), (120::real, Sell)] \<and> trades st ! 1 = 1 \<and>
        100 = fst ([(100, Hold), (100, Buy), (120::real, Sell)] ! 1)) \<and>
     ((1, 100) \<in> set (sell_markers (plot_results [100, 100, 120] [50, 50, 100] st [150, 150, 180] ''JPM'' 70 30)) \<longleftrightarrow>
        1 < length [(100, Hold), (100, Buy), (120::real, Sell)] \<and> trades st ! 1 = -1 \<and>
        100 = fst ([(100, Hold), (100, Buy), (120::real, Sell)] ! 1))"
proof -
  obtain st where r: "backtest_strategy [(100, Hold), (100, Buy), (120::real, Sell)] 150 0 = Inr st"
    using refinement_example_run by blast
  have "map fst [(100, Hold), (100, Buy), (120::real, Sell)] = [100, 100, 120]" by simp
  with plot_markers_at_trades [OF r, of "plot_results [100, 100, 120] [50, 50, 100] st [150, 150, 180] ''JPM'' 70 30"] r
  show ?thesis by auto
qed

end
