(* ===== verification/History.thy ===== *)
theory History
  imports Prelude
begin

text \<open>
  \<open>get_historical_data\<close> of \<open>src/subcode/calculation.py\<close> (lines 29--38). The
  download itself (\<open>yf.download\<close>) is an external service and a parameter
  here: a function from ticker and dates to the daily bars, each cell of which
  may be missing (NaN). The cleaning drops every bar with a missing cell
  (\<open>dropna\<close>). Flattening a MultiIndex keeps the first level of the column
  names, which are the fields of \<open>bar\<close>, so it has no counterpart in the model.
  The close column of the cleaned frame is what the stages read.
\<close>

record bar =
  bar_open :: "real option"
  bar_high :: "real option"
  bar_low :: "real option"
  bar_close :: "real option"
  bar_volume :: "real option"

definition bar_complete :: "bar \<Rightarrow> bool" where
  "bar_complete b =
     (bar_open b \<noteq> None \<and> bar_high b \<noteq> None \<and> bar_low b \<noteq> None \<and>
      bar_close b \<noteq> None \<and> bar_volume b \<noteq> None)"

text \<open>Line 35: \<open>data.dropna(inplace=True)\<close>.\<close>

definition dropna :: "bar list \<Rightarrow> bar list" where
  "dropna rows = filter bar_complete rows"

definition get_historical_data ::
  "(string \<Rightarrow> string \<Rightarrow> string \<Rightarrow> bar list) \<Rightarrow> string \<Rightarrow> string \<Rightarrow> string \<Rightarrow> bar list" where
  "get_historical_data download ticker start_date end_date = dropna (download ticker start_date end_date)"

text \<open>\<open>data['Close']\<close> of the cleaned frame, as the stages read it.\<close>

definition close_column :: "bar list \<Rightarrow> close_series" where
  "close_column rows = map (\<lambda>b. the (bar_close b)) rows"

lemma dropna_complete: "b \<in> set (dropna rows) \<Longrightarrow> bar_complete b"
  by (simp add: dropna_def)

lemma dropna_Nil_iff: "dropna rows = [] \<longleftrightarrow> list_all (\<lambda>b. \<not> bar_complete b) rows"
  by (simp add: dropna_def filter_empty_conv list_all_iff)

lemma close_column_Nil_iff [simp]: "close_column rows = [] \<longleftrightarrow> rows = []"
  by (simp add: close_column_def)

lemma close_column_dropna:
  "map Some (close_column (dropna rows)) = map bar_close (dropna rows)"
  by (induction rows) (auto simp: close_column_def dropna_def bar_complete_def)

end
