(* ===== verification/Gui.thy ===== *)
theory Gui
  imports App Display Plot History
begin

text \<open>
  The application object \<open>BacktestApp\<close> of \<open>src/subcode/app.py\<close> as a state
  machine. Its state is what the handlers read and write: the selected
  company (\<open>company_var\<close>), the four entries, the metrics table shown in the
  summary frame and the figure shown on the canvas. An entry is held as the
  value \<open>float(...)\<close> gives for its text: a finite number, or \<open>None\<close> when
  \<open>float\<close> raises \<open>ValueError\<close> (the non-finite values are the subject of
  \<open>Float_Inputs\<close>). The events are the user's: choosing a company from the
  dropdown (by its position in the menu), editing an entry, pressing "Run
  Backtest". Message boxes and tracebacks are the response of an event; an
  exception raised in the handler leaves the state as it was, since the
  handler writes the state only after every computation has succeeded.
\<close>

datatype gui_error = NotANumber | InvalidInput input_error

record gui_state =
  company_var :: string
  capital_value :: "real option"
  fee_value :: "real option"
  overbought_value :: "real option"
  oversold_value :: "real option"
  metrics_frame :: "(string \<times> metric_value option \<times> metric_value option) list option"
  canvas :: "plot option"

text \<open>\<open>__init__\<close> and the defaults of \<open>create_widgets\<close> (lines 40--46 and 115--148).\<close>

definition gui_init :: gui_state where
  "gui_init =
     \<lparr>company_var = ''JPMorgan Chase & Co. (JPM)'',
      capital_value = Some 10000, fee_value = Some (1 / 10),
      overbought_value = Some 70, oversold_value = Some 30,
      metrics_frame = None, canvas = None\<rparr>"

datatype gui_event =
    SelectCompany nat
  | EnterCapital "real option"
  | EnterFee "real option"
  | EnterOverbought "real option"
  | EnterOversold "real option"
  | PressRun

datatype response = NoResponse | InputErrorDialog gui_error | NoDataDialog | Traceback run_error | ShowResults

type_synonym downloader = "string \<Rightarrow> string \<Rightarrow> string \<Rightarrow> bar list"

text \<open>
  Lines 169--190: each entry is parsed and checked in turn, so an unparsable
  fee is reported only once the capital has passed its check.
\<close>

definition read_inputs :: "real option \<Rightarrow> real option \<Rightarrow> real option \<Rightarrow> real option \<Rightarrow> gui_error + config" where
  "read_inputs capital fee_text overbought oversold =
     (case capital of None \<Rightarrow> Inl NotANumber | Some c \<Rightarrow>
      if c \<le> 0 then Inl (InvalidInput CapitalNotPositive) else
      case fee_text of None \<Rightarrow> Inl NotANumber | Some fe \<Rightarrow>
      let fee = fe / 100 in
      if fee < 0 then Inl (InvalidInput FeeNegative) else
      case overbought of None \<Rightarrow> Inl NotANumber | Some ob \<Rightarrow>
      if \<not> (0 < ob \<and> ob < 100) then Inl (InvalidInput OverboughtOutOfRange) else
      case oversold of None \<Rightarrow> Inl NotANumber | Some os \<Rightarrow>
      if \<not> (0 < os \<and> os < 100) then Inl (InvalidInput OversoldOutOfRange) else
      if os \<ge> ob then Inl (InvalidInput OversoldNotBelowOverbought)
      else Inr \<lparr>initial_capital = c, fee_percentage = fee, rsi_overbought = ob, rsi_oversold = os\<rparr>)"

text \<open>Line 197: the frame the stages receive, \<open>get_historical_data\<close>'s close column.\<close>

definition data_source :: "downloader \<Rightarrow> string \<Rightarrow> string \<Rightarrow> string \<Rightarrow> close_series" where
  "data_source download ticker start_date end_date =
     close_column (get_historical_data download ticker start_date end_date)"

text \<open>
  Lines 209--210 with \<open>display_metrics\<close> (216--220: the old frame is destroyed
  and a new one built) and \<open>plot_results\<close> (255--256: the old canvas is
  destroyed): the table and the figure of one run replace the previous ones.
\<close>

definition show_results :: "close_series \<Rightarrow> performance \<Rightarrow> bt_state \<Rightarrow> config \<Rightarrow> gui_state \<Rightarrow> gui_state" where
  "show_results data m st cfg s =
     s\<lparr>metrics_frame := Some (display_metrics m),
       canvas := Some (plot_results data (calculate_rsi default_period data) st
                   (bh_values (initial_capital cfg) (hd data) data)
                   (company_var s) (rsi_overbought cfg) (rsi_oversold cfg))\<rparr>"

text \<open>Lines 165--210: the button's handler.\<close>

definition press_run :: "downloader \<Rightarrow> gui_state \<Rightarrow> gui_state \<times> response" where
  "press_run download s =
     (case map_of COMPANIES (company_var s) of
        None \<Rightarrow> (s, Traceback KeyError)
      | Some ticker \<Rightarrow>
        (case read_inputs (capital_value s) (fee_value s) (overbought_value s) (oversold_value s) of
           Inl e \<Rightarrow> (s, InputErrorDialog e)
         | Inr cfg \<Rightarrow>
           (case run_pipeline (data_source download) ticker cfg of
              NoData \<Rightarrow> (s, NoDataDialog)
            | Crashed e \<Rightarrow> (s, Traceback e)
            | Rejected e \<Rightarrow> (s, InputErrorDialog (InvalidInput e))
            | Report m st \<Rightarrow>
                (show_results (data_source download ticker START_DATE END_DATE) m st cfg s, ShowResults))))"

text \<open>
  One event. The dropdown offers the keys of \<open>COMPANIES\<close> (line 119), so a
  selection is a position in that list.
\<close>

fun gui_step :: "downloader \<Rightarrow> gui_state \<Rightarrow> gui_event \<Rightarrow> gui_state \<times> response" where
  "gui_step download s (SelectCompany i) =
     (if i < length COMPANIES then s\<lparr>company_var := fst (COMPANIES ! i)\<rparr> else s, NoResponse)"
| "gui_step download s (EnterCapital v) = (s\<lparr>capital_value := v\<rparr>, NoResponse)"
| "gui_step download s (EnterFee v) = (s\<lparr>fee_value := v\<rparr>, NoResponse)"
| "gui_step download s (EnterOverbought v) = (s\<lparr>overbought_value := v\<rparr>, NoResponse)"
| "gui_step download s (EnterOversold v) = (s\<lparr>oversold_value := v\<rparr>, NoResponse)"
| "gui_step download s PressRun = press_run download s"

text \<open>\<open>mainloop\<close> over a sequence of events, collecting the responses.\<close>

fun run_events :: "downloader \<Rightarrow> gui_state \<Rightarrow> gui_event list \<Rightarrow> gui_state \<times> response list" where
  "run_events download s [] = (s, [])"
| "run_events download s (ev # evs) =
     (let (s1, r) = gui_step download s ev;
          (s2, rs) = run_events download s1 evs
      in (s2, r # rs))"

inductive gui_reach :: "downloader \<Rightarrow> gui_state \<Rightarrow> bool" for download where
  init: "gui_reach download gui_init"
| step: "gui_reach download s \<Longrightarrow> gui_reach download (fst (gui_step download s ev))"

text \<open>The table and the figure on screen come from one run.\<close>

definition shown_consistent :: "gui_state \<Rightarrow> bool" where
  "shown_consistent s =
     (case (metrics_frame s, canvas s) of
        (None, None) \<Rightarrow> True
      | (Some t, Some p) \<Rightarrow>
          (''Number of Trades:'', Some (Count (int (length (buy_markers p) + length (sell_markers p)))),
           Some NotApplicable) \<in> set t
      | _ \<Rightarrow> False)"


subsection \<open>Lemmas\<close>

lemma div2_halves: "(n + 1) div 2 + n div 2 = (n :: nat)"
  by presburger

lemma read_inputs_Some:
  "read_inputs (Some c) (Some fee) (Some ob) (Some os) =
     (case validate_inputs c fee ob os of Inl e \<Rightarrow> Inl (InvalidInput e) | Inr cfg \<Rightarrow> Inr cfg)"
  by (simp add: read_inputs_def validate_inputs_def Let_def)

lemma gui_step_company:
  "company_var s \<in> set (map fst COMPANIES) \<Longrightarrow>
     company_var (fst (gui_step d s ev)) \<in> set (map fst COMPANIES)"
  by (cases ev) (auto simp: press_run_def show_results_def split: option.splits sum.splits outcome.splits)

lemma gui_reach_company: "gui_reach d s \<Longrightarrow> company_var s \<in> set (map fst COMPANIES)"
proof (induction rule: gui_reach.induct)
  case init
  show ?case by (simp add: gui_init_def COMPANIES_def)
next
  case (step s ev)
  from step.IH show ?case by (rule gui_step_company)
qed

lemma show_results_consistent:
  assumes "run_pipeline (data_source d) t cfg = Report m st"
  shows "shown_consistent (show_results (data_source d t START_DATE END_DATE) m st cfg s)"
proof -
  let ?data = "data_source d t START_DATE END_DATE"
  let ?sigs = "generate_signals (rsi_overbought cfg) (rsi_oversold cfg) (calculate_rsi default_period ?data)"
  from run_pipeline_Report [OF assms] have ne: "?data \<noteq> []"
    and bs: "backtest_strategy (zip ?data ?sigs) (initial_capital cfg) (fee_percentage cfg) = Inr st"
    and mt: "calculate_performance_metrics ?data st (initial_capital cfg) = Inr m" by simp_all
  have fst_rows: "map fst (zip ?data ?sigs) = ?data" by simp
  let ?p = "plot_results ?data (calculate_rsi default_period ?data) st
              (bh_values (initial_capital cfg) (hd ?data) ?data) (company_var s) (rsi_overbought cfg) (rsi_oversold cfg)"
  have "?p = plot_results (map fst (zip ?data ?sigs)) (calculate_rsi default_period ?data) st
              (bh_values (initial_capital cfg) (hd ?data) ?data) (company_var s) (rsi_overbought cfg) (rsi_oversold cfg)"
    by (simp only: fst_rows)
  from plot_marker_lengths [OF bs this]
  have "int (length (buy_markers ?p) + length (sell_markers ?p)) = number_of_trades (trades st)"
    using div2_halves by simp
  moreover have "trade_count m = number_of_trades (trades st)"
    using calculate_performance_metrics_Inr [OF _ ne, of st "initial_capital cfg"] mt
      calculate_performance_metrics_Inr_nonempty [OF mt] by simp
  ultimately show ?thesis
    using display_metrics_trades_row [of m]
    by (simp add: show_results_def shown_consistent_def)
qed

lemma press_run_cases:
  "fst (press_run d s) = s \<or>
   (\<exists>t cfg m st. run_pipeline (data_source d) t cfg = Report m st \<and>
      fst (press_run d s) = show_results (data_source d t START_DATE END_DATE) m st cfg s)"
  by (auto simp: press_run_def split: option.splits sum.splits outcome.splits)

lemma gui_step_keeps_views:
  "ev \<noteq> PressRun \<Longrightarrow>
     metrics_frame (fst (gui_step d s ev)) = metrics_frame s \<and> canvas (fst (gui_step d s ev)) = canvas s"
  by (cases ev) auto

lemma shown_consistent_cong:
  assumes "metrics_frame s' = metrics_frame s" and "canvas s' = canvas s"
  shows "shown_consistent s' = shown_consistent s"
  unfolding shown_consistent_def by (simp only: assms)

lemma gui_step_shown:
  assumes "shown_consistent s"
  shows "shown_consistent (fst (gui_step d s ev))"
proof (cases "ev = PressRun")
  case True
  then show ?thesis
    using press_run_cases [of d s] assms show_results_consistent by auto
next
  case False
  from gui_step_keeps_views [OF False, of d s]
  have "shown_consistent (fst (gui_step d s ev)) = shown_consistent s"
    by (intro shown_consistent_cong) simp_all
  with assms show ?thesis by simp
qed

lemma data_source_flat:
  "bar_complete b \<Longrightarrow> d t s e = replicate n b \<Longrightarrow>
     data_source d t s e = replicate n (the (bar_close b))"
  by (simp add: data_source_def get_historical_data_def dropna_def close_column_def)

lemma jpm_lookup: "map_of COMPANIES ''JPMorgan Chase & Co. (JPM)'' = Some ''JPM''"
  by (simp add: COMPANIES_def)


subsection \<open>Properties of the application\<close>

text \<open>
  C25. In every state the application can reach, no event ends in the
  uncaught \<open>KeyError\<close> of the ticker lookup: the selected company is always a
  key of \<open>COMPANIES\<close>, from the default on.
\<close>

theorem gui_no_key_error:
  assumes "gui_reach d s"
  shows "snd (gui_step d s ev) \<noteq> Traceback KeyError"
proof -
  from companies_lookup [OF gui_reach_company [OF assms]]
  obtain t where t: "map_of COMPANIES (company_var s) = Some t" ..
  show ?thesis
  proof (cases ev)
    case PressRun
    then show ?thesis
      using t run_pipeline_outcomes [of "data_source d" t]
      by (auto simp: press_run_def split: sum.splits outcome.splits)
  qed simp_all
qed

theorem gui_no_key_error_witness:
  "snd (gui_step (\<lambda>_ _ _. []) gui_init PressRun) \<noteq> Traceback KeyError"
  by (rule gui_no_key_error [OF gui_reach.init])

text \<open>
  C26. In every reachable state the metrics table and the figure are shown
  together or not at all, and the table's "Number of Trades" row equals the
  number of buy and sell markers in the figure: the two views always come
  from the same run.
\<close>

theorem gui_shown_consistent:
  assumes "gui_reach d s"
  shows "shown_consistent s"
  using assms
proof (induction rule: gui_reach.induct)
  case init
  show ?case by (simp add: gui_init_def shown_consistent_def)
next
  case (step s ev)
  from step.IH show ?case by (rule gui_step_shown)
qed

theorem gui_shown_consistent_witness:
  "shown_consistent (fst (gui_step (\<lambda>_ _ _. []) gui_init PressRun))"
  by (rule gui_shown_consistent [OF gui_reach.step [OF gui_reach.init]])

text \<open>
  C27. Results can always be reached: from any state, choosing JPMorgan,
  entering capital 10000, fee 0 and thresholds 70/30, and pressing the
  button shows the metrics table and the figure, whenever the download for
  JPM is a non-empty run of one complete bar.
\<close>

theorem results_always_reachable:
  assumes "d ''JPM'' START_DATE END_DATE = replicate n b" and "bar_complete b" and "0 < n"
  shows "\<exists>s'. run_events d s [SelectCompany 8, EnterCapital (Some 10000), EnterFee (Some 0),
            EnterOverbought (Some 70), EnterOversold (Some 30), PressRun] =
          (s', [NoResponse, NoResponse, NoResponse, NoResponse, NoResponse, ShowResults]) \<and>
          metrics_frame s' \<noteq> None \<and> canvas s' \<noteq> None"
proof -
  let ?s5 = "s\<lparr>company_var := ''JPMorgan Chase & Co. (JPM)'', capital_value := Some 10000,
               fee_value := Some 0, overbought_value := Some 70, oversold_value := Some 30\<rparr>"
  let ?cfg = "\<lparr>initial_capital = 10000, fee_percentage = 0, rsi_overbought = 70, rsi_oversold = 30\<rparr>"
  have cfg: "read_inputs (Some 10000) (Some 0) (Some 70) (Some 30) = Inr ?cfg"
    by (simp add: read_inputs_def)
  have src: "data_source d ''JPM'' START_DATE END_DATE = replicate n (the (bar_close b))"
    using data_source_flat [where d = d, OF assms(2) assms(1)] .
  obtain m st where run: "run_pipeline (data_source d) ''JPM'' ?cfg = Report m st"
    using run_pipeline_flat [where g = "data_source d" and cfg = ?cfg, OF src assms(3)] by auto
  have "press_run d ?s5 = (show_results (data_source d ''JPM'' START_DATE END_DATE) m st ?cfg ?s5, ShowResults)"
    using cfg run by (simp add: press_run_def jpm_lookup)
  moreover have "fst (COMPANIES ! 8) = ''JPMorgan Chase & Co. (JPM)''" "8 < length COMPANIES"
    by (simp_all add: COMPANIES_def)
  ultimately show ?thesis by (simp add: show_results_def)
qed

theorem results_always_reachable_witness:
  "\<exists>s'. run_events (\<lambda>_ _ _. replicate 2 \<lparr>bar_open = Some 100, bar_high = Some 100, bar_low = Some 100,
            bar_close = Some 100, bar_volume = Some 1000\<rparr>) gui_init
          [SelectCompany 8, EnterCapital (Some 10000), EnterFee (Some 0),
            EnterOverbought (Some 70), EnterOversold (Some 30), PressRun] =
          (s', [NoResponse, NoResponse, NoResponse, NoResponse, NoResponse, ShowResults]) \<and>
          metrics_frame s' \<noteq> None \<and> canvas s' \<noteq> None"
  by (rule results_always_reachable [where n = 2 and b = "\<lparr>bar_open = Some 100, bar_high = Some 100,
      bar_low = Some 100, bar_close = Some 100, bar_volume = Some 1000\<rparr>"])
     (simp_all add: bar_complete_def)

text \<open>
  C28. A download in which every bar has a missing cell is emptied by
  \<open>dropna\<close>, and pressing the button then shows the "No Data" message and
  changes nothing.
\<close>

theorem incomplete_download_no_data:
  assumes "map_of COMPANIES (company_var s) = Some t"
    and "read_inputs (capital_value s) (fee_value s) (overbought_value s) (oversold_value s) = Inr cfg"
    and "list_all (\<lambda>b. \<not> bar_complete b) (d t START_DATE END_DATE)"
  shows "press_run d s = (s, NoDataDialog)"
proof -
  have "data_source d t START_DATE END_DATE = []"
    using assms(3) dropna_Nil_iff by (simp add: data_source_def get_historical_data_def)
  with assms(1,2) show ?thesis by (simp add: press_run_def run_pipeline_def)
qed

theorem incomplete_download_no_data_witness:
  "press_run (\<lambda>_ _ _. [\<lparr>bar_open = Some 100, bar_high = Some 100, bar_low = Some 100,
      bar_close = None, bar_volume = Some 1000\<rparr>]) gui_init = (gui_init, NoDataDialog)"
  by (rule incomplete_download_no_data [where t = "''JPM''" and
      cfg = "\<lparr>initial_capital = 10000, fee_percentage = 1 / 1000, rsi_overbought = 70, rsi_oversold = 30\<rparr>"])
     (simp_all add: gui_init_def COMPANIES_def read_inputs_def bar_complete_def)

end
