(* ===== verification/Layout.thy ===== *)
theory Layout
  imports Display
begin

text \<open>
  The grid geometry of the window (\<open>BacktestApp.create_widgets\<close>,
  \<open>src/subcode/app.py\<close> lines 51--152) and of the metrics table
  (\<open>display_metrics\<close>, lines 232--249): every \<open>grid(row=..., column=...,
  columnspan=...)\<close> call as a placement (row, column, span), in the order of
  the calls. Paddings, stickiness and fonts are not modelled.
\<close>

type_synonym placement = "nat \<times> nat \<times> nat"

text \<open>Lines 59, 66, 88 and 95: the four frames of \<open>main_frame\<close>.\<close>

definition main_grid :: "(string \<times> placement) list" where
  "main_grid =
     [(''input_frame'', (0, 0, 1)), (''info_frame'', (0, 1, 1)),
      (''summary_frame'', (0, 2, 1)), (''results_frame'', (1, 0, 3))]"

text \<open>Lines 101--104: the rows and columns of \<open>main_frame\<close> given a weight.\<close>

definition main_row_weights :: "(nat \<times> nat) list" where
  "main_row_weights = [(1, 1)]"

definition main_column_weights :: "(nat \<times> nat) list" where
  "main_column_weights = [(0, 1), (1, 1), (2, 1)]"

text \<open>Lines 113--152: the labels, the dropdown, the entries and the button of \<open>input_frame\<close>.\<close>

definition input_grid :: "(string \<times> placement) list" where
  "input_grid =
     [(''company_label'', (0, 0, 1)), (''company_dropdown'', (0, 1, 1)),
      (''capital_label'', (1, 0, 1)), (''capital_entry'', (1, 1, 1)),
      (''fee_label'', (2, 0, 1)), (''fee_entry'', (2, 1, 1)),
      (''overbought_label'', (3, 0, 1)), (''overbought_entry'', (3, 1, 1)),
      (''oversold_label'', (4, 0, 1)), (''oversold_entry'', (4, 1, 1)),
      (''run_button'', (5, 0, 2))]"

text \<open>
  Lines 232--249: a header label per column (\<open>enumerate(headers)\<close>), then
  for each metric, from row 1 on, its name, its strategy value and its
  buy-and-hold value in columns 0, 1 and 2.
\<close>

definition metrics_grid :: "placement list" where
  "metrics_grid =
     map (\<lambda>c. (0, c, 1)) [0..<length metrics_headers] @
     concat (map (\<lambda>r. [(r, 0, 1), (r, 1, 1), (r, 2, 1)]) [1..<Suc (length metrics_labels)])"

definition grid_cells :: "placement \<Rightarrow> (nat \<times> nat) list" where
  "grid_cells p = (case p of (r, c, s) \<Rightarrow> map (\<lambda>c'. (r, c')) [c..<c + s])"

text \<open>Placements that cover the cells of a \<open>rows\<close> by \<open>cols\<close> rectangle once each, row by row.\<close>

definition grid_tiles :: "placement list \<Rightarrow> nat \<Rightarrow> nat \<Rightarrow> bool" where
  "grid_tiles ps rows cols = (concat (map grid_cells ps) = List.product [0..<rows] [0..<cols])"

lemma grid_tiles_distinct:
  "grid_tiles ps rows cols \<Longrightarrow> distinct (concat (map grid_cells ps))"
  by (simp add: grid_tiles_def distinct_product)

lemma grid_tiles_cells:
  "grid_tiles ps rows cols \<Longrightarrow> set (concat (map grid_cells ps)) = {0..<rows} \<times> {0..<cols}"
  by (simp add: grid_tiles_def)

text \<open>
  No two widgets share a grid cell and no cell is left empty: the four
  frames tile two rows of three columns, the results frame spanning the
  three columns that carry a weight; the input widgets tile six rows of two
  columns, each label beside its field and the button across both; the
  metrics table tiles a header row and one row per metric, three columns
  wide.
\<close>

lemma layout_tiles:
  "grid_tiles (map snd main_grid) 2 3 \<and> map fst main_column_weights = [0..<3] \<and>
   map fst main_row_weights = [1] \<and>
   grid_tiles (map snd input_grid) 6 2 \<and>
   grid_tiles metrics_grid (Suc (length metrics_labels)) 3"
  by (simp add: grid_tiles_def main_grid_def main_column_weights_def main_row_weights_def
      input_grid_def metrics_grid_def metrics_headers_def metrics_labels_def grid_cells_def
      upt_rec List.product.simps)

end
