(* ===== verification/Float_Sim.thy ===== *)
theory Float_Sim
  imports Backtest
begin

text \<open>
  The loop of \<open>backtest_strategy\<close> (\<open>calculation.py\<close>, lines 82--114) over
  Python floats. The capital and the fee rate come from \<open>float(...)\<close> and may
  be \<open>nan\<close> or infinite (\<open>Float_Inputs\<close> shows they can pass validation);
  the ledger's cash, fees, values and returns are then \<open>fval\<close>s, the share
  count stays a Python \<open>int\<close>, and the closes are finite (\<open>dropna\<close>). The
  float operations follow IEEE rules as NumPy applies them (the closes are
  \<open>float64\<close> scalars, so every operation with a close is a NumPy one):
  \<open>inf - inf\<close>, \<open>0 * inf\<close> and anything with \<open>nan\<close> give \<open>nan\<close>;
  \<open>x // 0.0\<close> does not raise but gives \<open>x / 0.0\<close>, an infinity of the sign
  of \<open>x\<close>, or \<open>nan\<close> for a zero or \<open>nan\<close> dividend; \<open>x // p\<close> is \<open>nan\<close>
  for an infinite \<open>x\<close>; \<open>int()\<close> raises \<open>ValueError\<close> on \<open>nan\<close> and
  \<open>OverflowError\<close> on an infinity. Finite results are exact reals: rounding
  and overflow to infinity are not modelled.
\<close>

datatype float_error = PyValueError | PyOverflowError

fun fl_add :: "fval \<Rightarrow> fval \<Rightarrow> fval" where
  "fl_add (Fin a) (Fin b) = Fin (a + b)"
| "fl_add NaN _ = NaN"
| "fl_add _ NaN = NaN"
| "fl_add PInf NInf = NaN"
| "fl_add NInf PInf = NaN"
| "fl_add PInf _ = PInf"
| "fl_add _ PInf = PInf"
| "fl_add NInf _ = NInf"
| "fl_add _ NInf = NInf"

fun fl_neg :: "fval \<Rightarrow> fval" where
  "fl_neg (Fin a) = Fin (- a)"
| "fl_neg PInf = NInf"
| "fl_neg NInf = PInf"
| "fl_neg NaN = NaN"

definition fl_sub :: "fval \<Rightarrow> fval \<Rightarrow> fval" where
  "fl_sub x y = fl_add x (fl_neg y)"

text \<open>An infinity times a finite number: \<open>nan\<close> for zero, else the infinity of the product's sign.\<close>

definition inf_times :: "bool \<Rightarrow> real \<Rightarrow> fval" where
  "inf_times pos b = (if b = 0 then NaN else if (0 < b) = pos then PInf else NInf)"

fun fl_mul :: "fval \<Rightarrow> fval \<Rightarrow> fval" where
  "fl_mul (Fin a) (Fin b) = Fin (a * b)"
| "fl_mul NaN _ = NaN"
| "fl_mul _ NaN = NaN"
| "fl_mul PInf (Fin b) = inf_times True b"
| "fl_mul NInf (Fin b) = inf_times False b"
| "fl_mul (Fin a) PInf = inf_times True a"
| "fl_mul (Fin a) NInf = inf_times False a"
| "fl_mul PInf PInf = PInf"
| "fl_mul NInf NInf = PInf"
| "fl_mul PInf NInf = NInf"
| "fl_mul NInf PInf = NInf"

text \<open>\<open>x / y\<close> for a non-zero \<open>y\<close>: an infinity over a finite number keeps its sign.\<close>

fun fl_quot :: "fval \<Rightarrow> fval \<Rightarrow> fval" where
  "fl_quot (Fin a) (Fin b) = Fin (a / b)"
| "fl_quot NaN _ = NaN"
| "fl_quot _ NaN = NaN"
| "fl_quot (Fin a) _ = Fin 0"
| "fl_quot PInf (Fin b) = inf_times True b"
| "fl_quot NInf (Fin b) = inf_times False b"
| "fl_quot _ _ = NaN"

text \<open>\<open>cash // price\<close> for a finite \<open>float64\<close> price (NumPy's \<open>floor_divide\<close>).\<close>

definition fl_floordiv :: "fval \<Rightarrow> real \<Rightarrow> fval" where
  "fl_floordiv x p =
     (if p = 0 then
        (case x of Fin a \<Rightarrow> if a = 0 then NaN else if 0 < a then PInf else NInf | _ \<Rightarrow> x)
      else case x of Fin a \<Rightarrow> Fin (of_int \<lfloor>a / p\<rfloor>) | _ \<Rightarrow> NaN)"

text \<open>\<open>int(x)\<close>: truncation towards zero.\<close>

fun py_int :: "fval \<Rightarrow> float_error + int" where
  "py_int (Fin a) = Inr (if 0 \<le> a then \<lfloor>a\<rfloor> else - \<lfloor>- a\<rfloor>)"
| "py_int NaN = Inl PyValueError"
| "py_int PInf = Inl PyOverflowError"
| "py_int NInf = Inl PyOverflowError"

record fl_state =
  fl_cash :: fval
  fl_holdings :: int
  fl_total_fees :: fval
  fl_positions :: "int list"
  fl_portfolio_values :: "fval list"
  fl_trades :: "int list"
  fl_daily_returns :: "fval list"
  fl_prev :: fval

text \<open>Lines 73--80.\<close>

definition fl_init :: "fval \<Rightarrow> fl_state" where
  "fl_init initial_capital =
     \<lparr>fl_cash = initial_capital, fl_holdings = 0, fl_total_fees = Fin 0, fl_positions = [],
      fl_portfolio_values = [], fl_trades = [], fl_daily_returns = [], fl_prev = initial_capital\<rparr>"

text \<open>Lines 90--94.\<close>

definition fl_buy :: "fval \<Rightarrow> real \<Rightarrow> int \<Rightarrow> fl_state \<Rightarrow> fl_state" where
  "fl_buy fee_percentage price shares st =
     (let fee = fl_mul (Fin (of_int shares * price)) fee_percentage
      in st\<lparr>fl_cash := fl_sub (fl_cash st) (fl_add (Fin (of_int shares * price)) fee),
            fl_holdings := fl_holdings st + shares,
            fl_total_fees := fl_add (fl_total_fees st) fee,
            fl_positions := fl_positions st @ [1]\<rparr>)"

text \<open>Lines 98--102.\<close>

definition fl_sell :: "fval \<Rightarrow> real \<Rightarrow> fl_state \<Rightarrow> fl_state" where
  "fl_sell fee_percentage price st =
     (let fee = fl_mul (Fin (of_int (fl_holdings st) * price)) fee_percentage
      in st\<lparr>fl_cash := fl_add (fl_cash st) (fl_sub (Fin (of_int (fl_holdings st) * price)) fee),
            fl_holdings := 0,
            fl_total_fees := fl_add (fl_total_fees st) fee,
            fl_positions := fl_positions st @ [0]\<rparr>)"

text \<open>Line 106.\<close>

definition fl_carry :: "fl_state \<Rightarrow> fl_state" where
  "fl_carry st =
     st\<lparr>fl_positions := fl_positions st @ [if fl_positions st = [] then 0 else last (fl_positions st)]\<rparr>"

text \<open>Lines 108--114; \<open>prev != 0\<close> holds for \<open>nan\<close>, and the guard keeps the divisor non-zero.\<close>

definition fl_record :: "real \<Rightarrow> int \<Rightarrow> fl_state \<Rightarrow> fl_state" where
  "fl_record price trade st =
     (let portfolio_value = fl_add (fl_cash st) (Fin (of_int (fl_holdings st) * price));
          prev = fl_prev st;
          daily_return = (if prev \<noteq> Fin 0 then fl_quot (fl_sub portfolio_value prev) prev else Fin 0)
      in st\<lparr>fl_portfolio_values := fl_portfolio_values st @ [portfolio_value],
            fl_trades := fl_trades st @ [trade],
            fl_daily_returns := fl_daily_returns st @ [daily_return],
            fl_prev := portfolio_value\<rparr>)"

text \<open>Lines 83--114: one iteration.\<close>

fun fl_step :: "fval \<Rightarrow> fl_state \<Rightarrow> real \<times> signal \<Rightarrow> float_error + fl_state" where
  "fl_step fee_percentage st (price, signal) =
     (if signal = Buy \<and> fl_holdings st = 0 then
        (case py_int (fl_floordiv (fl_cash st) price) of
           Inl e \<Rightarrow> Inl e
         | Inr shares \<Rightarrow>
             if 0 < shares then Inr (fl_record price 1 (fl_buy fee_percentage price shares st))
             else Inr (fl_record price 0 st))
      else if signal = Sell \<and> 0 < fl_holdings st then
        Inr (fl_record price (-1) (fl_sell fee_percentage price st))
      else Inr (fl_record price 0 (fl_carry st)))"

fun fl_loop :: "fval \<Rightarrow> fl_state \<Rightarrow> (real \<times> signal) list \<Rightarrow> float_error + fl_state" where
  "fl_loop fee_percentage st [] = Inr st"
| "fl_loop fee_percentage st (row # rows) =
     (case fl_step fee_percentage st row of
        Inl e \<Rightarrow> Inl e
      | Inr st' \<Rightarrow> fl_loop fee_percentage st' rows)"

text \<open>The real ledger as a float ledger, and the Python exception of each simulator error.\<close>

definition lift_state :: "bt_state \<Rightarrow> fl_state" where
  "lift_state st =
     \<lparr>fl_cash = Fin (cash st), fl_holdings = holdings st, fl_total_fees = Fin (total_fees st),
      fl_positions = positions st, fl_portfolio_values = map Fin (portfolio_values st),
      fl_trades = trades st, fl_daily_returns = map Fin (daily_returns st),
      fl_prev = Fin (prev_portfolio_value st)\<rparr>"

fun py_error_of :: "bt_error \<Rightarrow> float_error" where
  "py_error_of OverflowError = PyOverflowError"
| "py_error_of ValueError = PyValueError"
| "py_error_of LengthMismatch = PyValueError"


subsection \<open>Finite values\<close>

lemma fl_sub_Fin [simp]: "fl_sub (Fin a) (Fin b) = Fin (a - b)"
  by (simp add: fl_sub_def)

lemma py_int_of_int [simp]: "py_int (Fin (of_int k)) = Inr k"
  by simp

lemma fl_record_lift:
  "fl_record price t (lift_state st) = lift_state (record_day price t st)"
  by (simp add: fl_record_def record_day_def lift_state_def Let_def)

lemma fl_step_lift:
  "fl_step (Fin f) (lift_state st) row =
     (case backtest_step f st row of Inl e \<Rightarrow> Inl (py_error_of e) | Inr st' \<Rightarrow> Inr (lift_state st'))"
proof (cases row)
  case (Pair price sg)
  have h: "fl_holdings (lift_state st) = holdings st" "fl_cash (lift_state st) = Fin (cash st)"
    by (simp_all add: lift_state_def)
  have buy: "fl_buy (Fin f) price k (lift_state st) = lift_state (execute_buy f price k st)" for k
    by (simp add: fl_buy_def execute_buy_def lift_state_def Let_def algebra_simps)
  have sell: "fl_sell (Fin f) price (lift_state st) = lift_state (execute_sell f price st)"
    by (simp add: fl_sell_def execute_sell_def lift_state_def Let_def algebra_simps)
  have carry: "fl_carry (lift_state st) = lift_state (carry_position st)"
    by (simp add: fl_carry_def carry_position_def lift_state_def)
  show ?thesis
    using Pair h buy sell carry
    by (auto simp: backtest_step.simps fl_floordiv_def fl_record_lift Let_def not_less)
qed

lemma lift_state_init: "lift_state (bt_init c) = fl_init (Fin c)"
  by (simp add: lift_state_def bt_init_def fl_init_def)

lemma fl_record_ledger [simp]:
  "fl_cash (fl_record price t st) = fl_cash st" "fl_holdings (fl_record price t st) = fl_holdings st"
  by (simp_all add: fl_record_def Let_def)

lemma fl_loop_append:
  "fl_loop fp st xs = Inr st' \<Longrightarrow> fl_loop fp st (xs @ ys) = fl_loop fp st' ys"
  by (induction xs arbitrary: st) (auto split: sum.splits)

lemma fl_loop_without_buy:
  assumes "fl_holdings st = 0" and "Buy \<notin> set (map snd rows)"
  shows "\<exists>st'. fl_loop fp st rows = Inr st' \<and> fl_holdings st' = 0 \<and> fl_cash st' = fl_cash st"
  using assms
proof (induction rows arbitrary: st)
  case Nil
  then show ?case by simp
next
  case (Cons row rows)
  obtain price sg where row: "row = (price, sg)" by fastforce
  with Cons.prems have nb: "sg \<noteq> Buy" by auto
  define s1 where "s1 = fl_record price 0 (fl_carry st)"
  have c1: "fl_cash s1 = fl_cash st" and h1: "fl_holdings s1 = 0"
    using Cons.prems(1) by (simp_all add: s1_def fl_carry_def)
  have "fl_step fp st row = Inr s1" using row nb Cons.prems(1) by (simp add: s1_def)
  moreover from Cons.IH [OF h1] Cons.prems(2) obtain st' where
    "fl_loop fp s1 rows = Inr st'" "fl_holdings st' = 0" "fl_cash st' = fl_cash s1" by auto
  ultimately show ?case using c1 by auto
qed


text \<open>
  On a finite capital and fee rate the loop over floats is the loop over
  reals: it raises the Python exception of the real model's error, or it
  returns the real model's ledger with every amount finite. A zero close at a
  buy raises \<open>OverflowError\<close> for non-zero cash and \<open>ValueError\<close> for zero
  cash in both.
\<close>

lemma fl_loop_refines:
  "fl_loop (Fin f) (fl_init (Fin c)) rows =
     (case backtest_loop f (bt_init c) rows of
        Inl e \<Rightarrow> Inl (py_error_of e)
      | Inr st \<Rightarrow> Inr (lift_state st))"
proof -
  have "fl_loop (Fin f) (lift_state st) rows =
     (case backtest_loop f st rows of Inl e \<Rightarrow> Inl (py_error_of e) | Inr st' \<Rightarrow> Inr (lift_state st'))" for st
    by (induction rows arbitrary: st) (auto simp: fl_step_lift split: sum.splits)
  then show ?thesis by (simp add: lift_state_init [symmetric])
qed

subsection \<open>Properties of the float-level simulator\<close>

text \<open>
  C13. A capital of \<open>nan\<close> or \<open>inf\<close>, which validation lets through, makes
  the run raise \<open>ValueError\<close> at the first buy signal: the rows before it
  leave the cash as it is, and there \<open>cash // price\<close> is \<open>nan\<close>, which
  \<open>int()\<close> cannot convert. No run with such a capital buys a share.
\<close>

theorem nonfinite_capital_crashes_at_buy:
  assumes "c = NaN \<or> c = PInf" and "Buy \<notin> set (map snd pre)" and "price \<noteq> 0"
  shows "fl_loop fp (fl_init c) (pre @ (price, Buy) # post) = Inl PyValueError"
proof -
  from fl_loop_without_buy [of "fl_init c" pre fp] assms(2)
  obtain st where pre: "fl_loop fp (fl_init c) pre = Inr st" and h: "fl_holdings st = 0"
    and cs: "fl_cash st = c" by (auto simp: fl_init_def)
  from fl_loop_append [OF pre]
  have "fl_loop fp (fl_init c) (pre @ rows) = fl_loop fp st rows" for rows .
  moreover have "fl_step fp st (price, Buy) = Inl PyValueError"
    using assms(1,3) h cs by (auto simp: fl_floordiv_def)
  ultimately show ?thesis by simp
qed

theorem nonfinite_capital_crashes_at_buy_witness:
  "fl_loop (Fin (1/1000)) (fl_init NaN) ([(100, Hold), (90, Sell)] @ (80, Buy) # [(85, Hold)]) = Inl PyValueError"
  by (rule nonfinite_capital_crashes_at_buy) simp_all

end
