(* ===== verification/Spec2Isabelle.thy ===== *)
theory Spec2Isabelle
  imports Float_Inputs Gui Layout Float_Sim
begin

text \<open>
  A verification model of the RSI backtesting tool. The program is a Tkinter
  application (\<open>src/main.py\<close> starts \<open>BacktestApp\<close> of
  \<open>src/subcode/app.py\<close>) whose button handler \<open>run_backtest\<close> reads and
  validates the inputs, downloads a close-price series (\<open>get_historical_data\<close>)
  and runs the four stages of \<open>src/subcode/calculation.py\<close> in a line:
  indicator, signals, simulation, performance metrics. Every stage is a pure
  function of a pandas frame; the model gives each stage the columns it reads
  and returns the columns it writes, as lists aligned with the rows.

  \<^bold>\<open>Theories.\<close>
  \<^item> \<open>Prelude\<close>: the pandas and NumPy primitives the stages share. Floats
    are \<open>real\<close>; a NumPy division is \<open>fdiv\<close>, whose result \<open>fval\<close> has
    \<open>PInf\<close>, \<open>NInf\<close> and \<open>NaN\<close>; \<open>shift(1)\<close> is \<open>shift1\<close> (a missing
    value is \<open>None\<close>); \<open>rolling(window=p, min_periods=1).mean()\<close> is
    \<open>rolling_mean\<close> over \<open>trailing_window\<close>.
  \<^item> \<open>Indicator\<close>: \<open>calculate_rsi\<close> (lines 43--52): \<open>diff\<close>, \<open>gain_of\<close>,
    \<open>loss_of\<close>, \<open>rsi_value\<close> with the \<open>fillna(50)\<close> default. Lemmas: the
    indicator lies in [0,100], equals the closed form
    \<open>rsi_reference\<close> = 100 ag/(ag+al), is 50 on the first row and on flat
    series, 100 on a strictly rising one.
  \<^item> \<open>Signals\<close>: \<open>generate_signals\<close> (lines 57--63) as \<open>signal_at\<close> on the
    pair (previous, current) indicator, the sell mask written after the buy
    mask; the datatype \<open>signal\<close> stands for the column's 0, 1 and -1, read
    by the loop as \<open>== 1\<close>, \<open>== -1\<close> and anything else. Lemmas: the
    crossing rule, Hold on the first row, that a row's signal depends on no
    later row.
  \<^item> \<open>Backtest\<close>: \<open>backtest_strategy\<close> (lines 70--122). The loop's local
    variables and result columns are the record \<open>bt_state\<close>; one iteration
    is \<open>backtest_step\<close>, with the branches \<open>execute_buy\<close>,
    \<open>execute_sell\<close>, \<open>carry_position\<close> and the bookkeeping
    \<open>record_day\<close>; the loop is \<open>backtest_loop\<close>. The pandas assignment of a
    shorter \<open>Position\<close> list raises, which is the error
    \<open>LengthMismatch\<close>; a buy at a zero close computes
    \<open>int(cash // 0.0)\<close>, which NumPy turns into \<open>OverflowError\<close> (non-zero
    cash) or \<open>ValueError\<close> (zero cash). Lemmas: the portfolio value
    identity, the daily change of the value (shares held times the price
    move, less the fee), compounding the daily returns gives the final
    value, the \<open>Positions\<close> column flags the holdings, fees monotone,
    solvency without a fee, the loop raises nothing without a zero close,
    and the behaviours that deviate from the intent (an unaffordable buy
    signal makes the run fail; a buy with a fee leaves negative cash exactly
    when the leftover is below the fee; a fee can raise the final value).
  \<^item> \<open>Float_Sim\<close>: the same loop over Python floats: the cash, fees,
    values and returns are \<open>fval\<close>s with IEEE rules for \<open>nan\<close> and the
    infinities, \<open>//\<close> as NumPy's \<open>floor_divide\<close> (an infinity or \<open>nan\<close>
    for a zero close, never an exception) and \<open>int()\<close> raising as in
    Python (\<open>float_error\<close>). Lemmas: on finite inputs it is the real model
    (\<open>lift_state\<close>); a \<open>nan\<close> or infinite capital makes the first buy
    signal raise \<open>ValueError\<close>.
  \<^item> \<open>Position_Spec\<close> and \<open>Simulator_Refinement\<close>: the abstract contract of
    the simulator, the Flat/Holding machine \<open>pos_step\<close> with reachability
    \<open>pos_reach\<close>, and the refinement: every run of \<open>backtest_loop\<close> is a
    run of the machine through \<open>position_of\<close>, so trades alternate.
  \<^item> \<open>Metrics\<close>: \<open>calculate_performance_metrics\<close> (lines 129--195) returns the
    record \<open>performance\<close> (the numeric values of the code's metrics
    dictionary, before formatting) or \<open>IndexError\<close> of \<open>iloc\<close> on an empty
    frame. \<open>expanding().max()\<close> is \<open>cummax\<close>; \<open>std()\<close> is \<open>sample_std\<close>
    with ddof 1, \<open>None\<close> standing for NaN. The metrics are exact real
    arithmetic: float64 rounding (for instance the residue of order 1e-17
    that \<open>std()\<close> leaves on constant returns) is not modelled, and a
    division by a zero close or value gives 0 in HOL where pandas gives an
    infinity or NaN; the properties stated assume non-zero divisors.
    Lemmas: drawdown bounds, running maximum, the one-row Sharpe ratio,
    buy-and-hold return, trade count.
  \<^item> \<open>History\<close>: \<open>get_historical_data\<close> (\<open>calculation.py\<close> lines 29--38):
    the downloaded bars with optional cells, \<open>dropna\<close>, the close column.
    The download (\<open>yf.download\<close>) is a parameter.
  \<^item> \<open>App\<close>: \<open>COMPANIES\<close>, \<open>START_DATE\<close>, \<open>END_DATE\<close> of
    \<open>configuration.py\<close>, \<open>validate_inputs\<close>, \<open>run_pipeline\<close> (lines
    193--207) and \<open>run_backtest\<close> of \<open>app.py\<close>, whose outcome is
    \<open>Rejected\<close>, \<open>NoData\<close>, \<open>Crashed\<close> or \<open>Report\<close>; the close series
    source is a parameter of the handler.
  \<^item> \<open>Float_Inputs\<close>: the validation block over the values \<open>float(...)\<close>
    returns, NaN and the infinities included, with Python's comparisons
    (\<open>float_lt\<close>, \<open>float_le\<close>); on finite values it is \<open>validate_inputs\<close>,
    and a NaN or infinite capital passes whenever a capital of 1 would, a
    NaN fee whenever a fee of 0 would.
  \<^item> \<open>Display\<close>: the metrics table of \<open>display_metrics\<close> (\<open>app.py\<close>
    lines 215--249): the dictionary of \<open>calculate_performance_metrics\<close> as
    an association list, the key derived from each row label, and the two
    lookups of a row. Lemma: every row finds both its cells.
  \<^item> \<open>Plot\<close>: the data of \<open>plot_results\<close> (lines 254--291): price, RSI and
    value lines, threshold lines, and the buy and sell markers taken from
    the \<open>Trades\<close> column. Lemmas: the markers sit on the trades, alternate,
    and number the reported trade count.
  \<^item> \<open>Layout\<close>: the grid placements of \<open>create_widgets\<close> and of the
    metrics table (the \<open>grid\<close> calls, not the labels' texts). Lemma: each
    grid tiles its rectangle exactly.
  \<^item> \<open>Gui\<close>: \<open>BacktestApp\<close> as a state machine (\<open>gui_state\<close>,
    \<open>gui_init\<close>, \<open>gui_step\<close> on \<open>gui_event\<close>s, \<open>press_run\<close> for the
    button), the main loop \<open>run_events\<close> of \<open>src/main.py\<close> and the
    reachable states \<open>gui_reach\<close>. Entries hold the value \<open>float\<close> parsed
    from their text, \<open>None\<close> for a \<open>ValueError\<close>. Lemmas (by rule induction
    on \<open>gui_reach\<close>): no reachable state raises \<open>KeyError\<close>; the table and
    the figure on screen come from the same run; results are reachable
    from every state; an all-incomplete download gives "No Data".
  \<^item> This theory: the properties of a whole run, composed from the stages,
    and the worked scenario of the specification.

  \<^bold>\<open>Bounds and fuel.\<close> Every loop of the code runs over the rows of a
  finite frame, so every definition but one recurses structurally over a
  list and is total; no fuel is needed. The \<open>for i in range(len(data))\<close>
  loop is the structural recursion \<open>backtest_loop\<close> over the rows, which
  it visits in order. Python integers (share counts, trades) are
  \<open>int\<close>, unbounded as in Python.

  \<^bold>\<open>Not modelled.\<close> The yfinance service itself (network I/O; the
  model takes the downloaded bars as a parameter), the paddings,
  stickiness, fonts, colours, window title and explanatory text of the
  Tkinter widgets and the Matplotlib rendering (only the grid placements and
  the plotted data are modelled), the string formatting of the
  metrics (a dictionary value is the number it formats), the text parsing
  of \<open>float\<close> (a library call: the model holds its result), the
  never-called \<open>exit_application\<close>, and a run on a NaN or infinite capital
  or fee through the metrics after the simulator (\<open>Float_Sim\<close> runs the
  simulator itself on such values; the indicator and the metrics are
  modelled on reals, which covers every finite input). Finite float results
  are exact reals: rounding and
  overflow to infinity are not modelled. \<open>sqrt\<close> in the
  volatility is HOL's real square root; it is not executable by the code
  generator, so properties about it are proved by \<open>simp\<close>.
\<close>

text \<open>
  C5. A run over an all-flat price series of any positive length (a single
  price included) with a known company and valid inputs reaches the report:
  no trade is made, the portfolio value stays at the initial capital, the
  total return, the maximum drawdown, the fees and the trade count are 0.
\<close>

theorem flat_prices_no_trades:
  assumes "map_of COMPANIES name = Some t" and "validate_inputs c fee ob os = Inr cfg"
    and "g t START_DATE END_DATE = replicate n p" and "0 < n"
  shows "\<exists>m st. run_backtest g name c fee ob os = Report m st \<and>
     trades st = replicate n 0 \<and> portfolio_values st = replicate n c \<and>
     portfolio_value m = c \<and> strategy_total_return m = 0 \<and> strategy_max_drawdown m = 0 \<and>
     fees_paid m = 0 \<and> trade_count m = 0"
proof -
  from assms(2) have c: "0 < c"
    and cfg: "cfg = \<lparr>initial_capital = c, fee_percentage = fee / 100, rsi_overbought = ob, rsi_oversold = os\<rparr>"
    by (simp_all add: validate_inputs_Inr)
  then have "run_backtest g name c fee ob os = run_pipeline g t cfg"
    using assms(1,2) by (simp add: run_backtest_def)
  with run_pipeline_flat [where g = g, OF assms(3,4), of cfg] c cfg show ?thesis by simp
qed

theorem flat_prices_no_trades_witness:
  "\<exists>m st. run_backtest (\<lambda>_ _ _. replicate 3 100) ''Apple Inc. (AAPL)'' 1000 (1/10) 70 30 = Report m st \<and>
     trades st = replicate 3 0 \<and> portfolio_values st = replicate 3 1000 \<and>
     portfolio_value m = 1000 \<and> strategy_total_return m = 0 \<and> strategy_max_drawdown m = 0 \<and>
     fees_paid m = 0 \<and> trade_count m = 0"
  by (rule flat_prices_no_trades [where t = "''AAPL''" and
      cfg = "\<lparr>initial_capital = 1000, fee_percentage = 1/1000, rsi_overbought = 70, rsi_oversold = 30\<rparr>"])
     (simp_all add: COMPANIES_def validate_inputs_def)

lemma spec_example_signals:
  "generate_signals 70 30 (calculate_rsi 2 [100, 100, 90, 90, 110, 110, 130, 80, 80, 80]) =
     [Hold, Hold, Hold, Hold, Buy, Hold, Hold, Sell, Hold, Buy]"
  by (simp add: rsi_spec_example generate_signals_def shift1_def signal_at_def buy_cross_def sell_cross_def)

text \<open>
  The worked scenario: period 2, thresholds 70/30, capital 1000 and no
  fee on the closes 100, 100, 90, 90, 110, 110, 130, 80, 80, 80. The
  simulator buys 9 shares at 110, sells them at 80 and buys 9 again at 80
  on the last row, where the flat tail makes the indicator jump from 0 to
  the neutral 50 and so cross the oversold line.
\<close>

lemma spec_example_run:
  "\<exists>st. backtest_strategy (zip [100, 100, 90, 90, 110, 110, 130, 80, 80, 80]
            (generate_signals 70 30 (calculate_rsi 2 [100, 100, 90, 90, 110, 110, 130, 80, 80, 80]))) 1000 0 = Inr st \<and>
     trades st = [0, 0, 0, 0, 1, 0, 0, -1, 0, 1] \<and>
     portfolio_values st = [1000, 1000, 1000, 1000, 1000, 1000, 1180, 730, 730, 730] \<and>
     cash st = 10 \<and> holdings st = 9 \<and> total_fees st = 0"
  by (simp add: spec_example_signals backtest_strategy_def backtest_step.simps record_day_def execute_buy_def
      execute_sell_def carry_position_def bt_init_def)

end
